theory Spec2Isabelle
  imports Main "HOL-Library.Word"
begin

unbundle bit_operations_syntax

section \<open>The schema of \<open>architecture.py\<close>\<close>

text \<open>
  The source is a Django schema: eleven model classes, four of which override
  \<open>save\<close>. A model class is a \<^theory_text>\<open>record\<close> of its columns, a
  \<open>choices\<close> list is a \<^theory_text>\<open>datatype\<close>, a table is the list of its rows in
  insertion order, and the database is the record of the eleven tables. A nullable
  column (\<open>null=True\<close>) has an \<open>option\<close> type, \<open>None\<close> being SQL \<open>NULL\<close>.

  Several models share column names (\<open>id\<close>, \<open>user\<close>, \<open>slug\<close>, ...), so every field
  carries a prefix naming its model: \<open>role_\<close> (Role), \<open>profile_\<close> (ArtisanProfile),
  \<open>work_\<close> (ArtisanWork), \<open>image_\<close> (ArtisanWorkImage), \<open>ufeed_\<close> (UserFeed),
  \<open>afeed_\<close> (ArtisanFeed), \<open>comment_\<close>, \<open>reaction_\<close>, \<open>report_\<close>, \<open>proposal_\<close>
  (ArtisanProposal) and \<open>user_\<close> (User). A foreign key holds the primary key of the
  row it references. Columns that are stored and never read by any behaviour of the
  source (timestamps, uploaded files, counters, most free text) are left out of the
  records.
\<close>

type_synonym uuid = "128 word"

text \<open>
  A Python \<open>str\<close> is a sequence of Unicode code points; a code point is a natural
  number, and \<open>str_of\<close> gives the code points of a literal.
\<close>

type_synonym str = "nat list"

definition str_of :: "string \<Rightarrow> str" where
  "str_of s = map of_char s"

abbreviation hyphen :: nat where
  "hyphen \<equiv> 45"

abbreviation underscore :: nat where
  "underscore \<equiv> 95"

text \<open>
  What a call can raise. \<open>UniqueViolation\<close> and \<open>ForeignKeyViolation\<close> are the
  \<open>django.db.IntegrityError\<close> of a \<open>UNIQUE\<close> and of a foreign key constraint.
  \<open>ColumnRefused\<close> stands for every error by which the library or the database refuses
  a value its column cannot hold: \<open>decimal.InvalidOperation\<close>, \<open>OverflowError\<close>,
  \<open>django.db.DataError\<close>, and the \<open>IntegrityError\<close> of a \<open>CHECK\<close> or \<open>NOT NULL\<close>
  constraint. \<open>DoesNotExist\<close> is raised by following a foreign key to a missing row;
  \<open>ValidationError\<close> is raised by model validation.
\<close>

datatype error =
  UniqueViolation | ForeignKeyViolation | ColumnRefused | DoesNotExist | ValidationError

datatype role_type =
  USER | ARTISAN | MASON | PLUMBER | ELECTRICIAN | CARPENTER | PAINTER | TILER
  | ROOFER | ADMIN | MODERATOR

datatype comment_type = Comment_USER_FEED | Comment_ARTISAN_FEED

datatype reaction_type = LIKE | DISLIKE

datatype reaction_content_type =
  Reaction_USER_FEED | Reaction_ARTISAN_FEED | Reaction_COMMENT

datatype report_content_type =
  Report_USER_FEED | Report_ARTISAN_FEED | Report_COMMENT | Report_USER

datatype report_reason =
  SPAM | INAPPROPRIATE | SCAM | MISLEADING | HARASSMENT | COPYRIGHT | OTHER

datatype report_status = PENDING | UNDER_REVIEW | RESOLVED | DISMISSED

datatype proposal_status =
  Proposal_PENDING | Proposal_ACCEPTED | Proposal_REJECTED | Proposal_WITHDRAWN

record User =
  user_id :: uuid
  user_email :: str
  user_username :: str
  user_full_name :: str

record Role =
  role_id :: uuid
  role_user :: uuid
  role_role_type :: role_type
  role_is_primary :: bool
  role_is_active :: bool

text \<open>
  A \<open>DecimalField(..., decimal_places=2)\<close> is a decimal with two fractional digits,
  held here as its number of hundredths (\<open>5.00\<close> is \<open>500\<close>). A
  \<open>PositiveIntegerField\<close> is an \<open>int\<close>: Python lets any integer be assigned.
\<close>

record ArtisanProfile =
  profile_id :: uuid
  profile_user :: uuid
  profile_business_name :: str
  profile_slug :: str
  profile_years_of_experience :: int
  profile_average_rating :: int

record ArtisanWork =
  work_id :: uuid
  work_artisan :: uuid
  work_title :: str
  work_slug :: str
  work_client_rating :: "int option"

record ArtisanWorkImage =
  image_id :: uuid
  image_work :: uuid
  image_order :: int

record UserFeed =
  ufeed_id :: uuid
  ufeed_user :: uuid
  ufeed_title :: str
  ufeed_slug :: str

record ArtisanFeed =
  afeed_id :: uuid
  afeed_artisan :: uuid
  afeed_title :: str
  afeed_slug :: str
  afeed_discount_percentage :: "int option"

record Comment =
  comment_id :: uuid
  comment_user :: uuid
  comment_comment_type :: comment_type
  comment_user_feed :: "uuid option"
  comment_artisan_feed :: "uuid option"
  comment_content :: str
  comment_parent_comment :: "uuid option"

record Reaction =
  reaction_id :: uuid
  reaction_user :: uuid
  reaction_reaction_type :: reaction_type
  reaction_content_type :: reaction_content_type
  reaction_user_feed :: "uuid option"
  reaction_artisan_feed :: "uuid option"
  reaction_comment :: "uuid option"

record Report =
  report_id :: uuid
  report_reporter :: uuid
  report_content_type :: report_content_type
  report_user_feed :: "uuid option"
  report_artisan_feed :: "uuid option"
  report_comment :: "uuid option"
  report_reported_user :: "uuid option"
  report_reason :: report_reason
  report_description :: str
  report_status :: report_status
  report_reviewed_by :: "uuid option"
  report_resolution_notes :: str

record ArtisanProposal =
  proposal_id :: uuid
  proposal_user_feed :: uuid
  proposal_artisan :: uuid
  proposal_proposed_price :: int
  proposal_estimated_duration :: int
  proposal_status :: proposal_status

text \<open>The tables, named by their \<open>db_table\<close>.\<close>

record db =
  users :: "User list"
  roles :: "Role list"
  artisan_profiles :: "ArtisanProfile list"
  artisan_works :: "ArtisanWork list"
  artisan_work_images :: "ArtisanWorkImage list"
  user_feeds :: "UserFeed list"
  artisan_feeds :: "ArtisanFeed list"
  comments :: "Comment list"
  reactions :: "Reaction list"
  reports :: "Report list"
  artisan_proposals :: "ArtisanProposal list"

definition empty_db :: db where
  "empty_db = \<lparr>users = [], roles = [], artisan_profiles = [], artisan_works = [],
     artisan_work_images = [], user_feeds = [], artisan_feeds = [], comments = [],
     reactions = [], reports = [], artisan_proposals = []\<rparr>"

text \<open>
  A statement either returns the new database (\<open>Inr\<close>) or raises (\<open>Inl\<close>). Django
  runs in autocommit mode unless the caller opens a transaction, and the source opens
  none, so a statement that ran before the one that raised stays committed: the error
  comes with the database as the raise leaves it.
\<close>

type_synonym result = "(error \<times> db) + db"

definition state_of :: "result \<Rightarrow> db" where
  "state_of res = (case res of Inl (e, d) \<Rightarrow> d | Inr d \<Rightarrow> d)"

subsection \<open>What the source runs on\<close>

text \<open>
  The source names neither its database nor the versions of Django and Python it runs
  on, and its behaviour depends on them in three places, which are the fields of a
  \<open>platform\<close>.

  \<^item> \<open>nfkd\<close> is the table of \<open>unicodedata\<close>: the full compatibility decomposition of
    a character outside ASCII (the character itself when it has none).

  \<^item> \<open>refuses_\<close>\<open>M\<close> tells whether the write of a row of model \<open>M\<close> is refused for
    the value of a column, before the \<open>UNIQUE\<close> and foreign key constraints decide: a
    negative \<open>PositiveIntegerField\<close>, an integer beyond the range of the column, a
    decimal of more than \<open>max_digits\<close> digits, a text longer than \<open>max_length\<close>. Which
    values are refused differs between databases and between versions of Django; the
    columns left out of the records count too.

  \<^item> \<open>also_invalid_\<close>\<open>M\<close> tells whether \<open>Model.clean_fields\<close> finds an error other
    than a raise of the validators the source declares: a required field left blank, a
    value outside its \<open>choices\<close>, a text longer than \<open>max_length\<close>, an integer outside
    the range of the database, a decimal of too many digits.
\<close>

record platform =
  nfkd :: "nat \<Rightarrow> str"
  refuses_ArtisanProfile :: "ArtisanProfile \<Rightarrow> bool"
  refuses_ArtisanWork :: "ArtisanWork \<Rightarrow> bool"
  refuses_UserFeed :: "UserFeed \<Rightarrow> bool"
  refuses_ArtisanFeed :: "ArtisanFeed \<Rightarrow> bool"
  refuses_ArtisanProposal :: "ArtisanProposal \<Rightarrow> bool"
  also_invalid_ArtisanProfile :: "ArtisanProfile \<Rightarrow> bool"
  also_invalid_ArtisanWork :: "ArtisanWork \<Rightarrow> bool"
  also_invalid_ArtisanFeed :: "ArtisanFeed \<Rightarrow> bool"

subsection \<open>\<open>Model.save\<close>: the write of one row\<close>

text \<open>
  \<open>super().save()\<close> updates the row that has the object's primary key, or inserts
  the object when no row has it. (An object whose key a row already has was loaded from
  that row; one built afresh with the key of an existing row is not modelled.)
\<close>

definition upsert :: "('a \<Rightarrow> uuid) \<Rightarrow> 'a \<Rightarrow> 'a list \<Rightarrow> 'a list" where
  "upsert pk x rows =
     (if pk x \<in> set (map pk rows) then map (\<lambda>y. if pk y = pk x then x else y) rows
      else rows @ [x])"

text \<open>
  A \<open>UNIQUE\<close> constraint on columns that are \<open>NOT NULL\<close>: the write is refused when
  another row (one with a different primary key) has the same key.
\<close>

definition unique_conflict :: "('a \<Rightarrow> uuid) \<Rightarrow> ('a \<Rightarrow> 'k) \<Rightarrow> 'a \<Rightarrow> 'a list \<Rightarrow> bool" where
  "unique_conflict pk key x rows = list_ex (\<lambda>y. pk y \<noteq> pk x \<and> key y = key x) rows"

text \<open>A foreign key constraint: the referenced row exists; a \<open>NULL\<close> references nothing.\<close>

definition fk_ok :: "('a \<Rightarrow> uuid) \<Rightarrow> uuid \<Rightarrow> 'a list \<Rightarrow> bool" where
  "fk_ok pk k rows = (k \<in> set (map pk rows))"

definition fk_ok_opt :: "('a \<Rightarrow> uuid) \<Rightarrow> uuid option \<Rightarrow> 'a list \<Rightarrow> bool" where
  "fk_ok_opt pk k rows = (case k of None \<Rightarrow> True | Some i \<Rightarrow> fk_ok pk i rows)"

subsection \<open>Role\<close>

text \<open>
  Line 97: \<open>Role.objects.filter(user=self.user, is_primary=True).update(is_primary=False)\<close>,
  one \<open>UPDATE\<close> statement.
\<close>

definition demote_primary :: "uuid \<Rightarrow> Role list \<Rightarrow> Role list" where
  "demote_primary u rows =
     map (\<lambda>x. if role_user x = u \<and> role_is_primary x then x\<lparr>role_is_primary := False\<rparr> else x) rows"

text \<open>
  Lines 96 and 97. \<open>self.user\<close> follows the foreign key and raises \<open>DoesNotExist\<close>
  when the user row is missing; the \<open>UPDATE\<close> then runs for the key of that user.
\<close>

definition demote_others :: "Role \<Rightarrow> db \<Rightarrow> result" where
  "demote_others r d =
     (if role_is_primary r then
        (case find (\<lambda>u. user_id u = role_user r) (users d) of
           None \<Rightarrow> Inl (DoesNotExist, d)
         | Some u \<Rightarrow> Inr (d\<lparr>roles := demote_primary (user_id u) (roles d)\<rparr>))
      else Inr d)"

text \<open>
  Line 98, with \<open>unique_together = [['user', 'role_type']]\<close> (line 88): the \<open>INSERT\<close>
  or \<open>UPDATE\<close> of the row, a second statement.
\<close>

definition super_save_Role :: "Role \<Rightarrow> db \<Rightarrow> result" where
  "super_save_Role r d =
     (if unique_conflict role_id (\<lambda>x. (role_user x, role_role_type x)) r (roles d)
      then Inl (UniqueViolation, d)
      else if \<not> fk_ok user_id (role_user r) (users d) then Inl (ForeignKeyViolation, d)
      else Inr (d\<lparr>roles := upsert role_id r (roles d)\<rparr>))"

text \<open>
  \<open>Role.save\<close>, lines 94 to 98, when no other statement runs between its two
  statements.
\<close>

definition save_Role :: "Role \<Rightarrow> db \<Rightarrow> result" where
  "save_Role r d =
     (case demote_others r d of
        Inl e \<Rightarrow> Inl e
      | Inr d' \<Rightarrow> super_save_Role r d')"

text \<open>
  \<open>Role.save\<close> opens no transaction and takes no lock, so the statements of two calls
  made at the same time, by two requests, can alternate. \<open>next_statement\<close> is the next
  statement of a call whose previous statement gave \<open>previous\<close>, run on the database
  as the other call has left it; a call that has raised runs nothing more.
  \<open>overlapping_saves\<close> is the schedule in which the \<open>UPDATE\<close>s of the two calls
  (line 97) both run before their writes (line 98); its value is the outcome of each
  call.
\<close>

definition next_statement :: "result \<Rightarrow> (db \<Rightarrow> result) \<Rightarrow> db \<Rightarrow> result" where
  "next_statement previous statement d =
     (case previous of Inl (e, d') \<Rightarrow> Inl (e, d) | Inr d' \<Rightarrow> statement d)"

definition overlapping_saves :: "Role \<Rightarrow> Role \<Rightarrow> db \<Rightarrow> result \<times> result" where
  "overlapping_saves r1 r2 d =
     (let update1 = demote_others r1 d;
          update2 = demote_others r2 (state_of update1);
          write1 = next_statement update1 (super_save_Role r1) (state_of update2);
          write2 = next_statement update2 (super_save_Role r2) (state_of write1)
      in (write1, write2))"

text \<open>The roles of a user that are flagged primary.\<close>

definition primary_roles :: "uuid \<Rightarrow> db \<Rightarrow> Role list" where
  "primary_roles u d = filter (\<lambda>x. role_user x = u \<and> role_is_primary x) (roles d)"

subsection \<open>\<open>django.utils.text.slugify\<close>\<close>

text \<open>
  The \<open>save\<close> methods call Django's \<open>slugify(value)\<close> (Django 3.2 and later):
  \<^verbatim>\<open>
  value = unicodedata.normalize("NFKD", value).encode("ascii", "ignore").decode("ascii")
  value = re.sub(r"[^\w\s-]", "", value.lower())
  return re.sub(r"[-\s]+", "-", value).strip("-_")
  \<close>
  On the ASCII text that the first line leaves, \<open>\w\<close> is a letter, a digit or the
  underscore, and \<open>\s\<close> is one of the characters 9 to 13 and 28 to 32.
\<close>

definition is_ascii :: "nat \<Rightarrow> bool" where
  "is_ascii c = (c < 128)"

definition is_alnum :: "nat \<Rightarrow> bool" where
  "is_alnum c = ((48 \<le> c \<and> c \<le> 57) \<or> (65 \<le> c \<and> c \<le> 90) \<or> (97 \<le> c \<and> c \<le> 122))"

definition is_word :: "nat \<Rightarrow> bool" where
  "is_word c = (is_alnum c \<or> c = underscore)"

definition is_space :: "nat \<Rightarrow> bool" where
  "is_space c = ((9 \<le> c \<and> c \<le> 13) \<or> (28 \<le> c \<and> c \<le> 32))"

definition lower :: "nat \<Rightarrow> nat" where
  "lower c = (if 65 \<le> c \<and> c \<le> 90 then c + 32 else c)"

definition is_separator :: "nat \<Rightarrow> bool" where
  "is_separator c = (c = hyphen \<or> is_space c)"

text \<open>
  \<open>unicodedata.normalize("NFKD", value).encode("ascii", "ignore").decode("ascii")\<close>.
  The normalisation replaces every character by its full compatibility decomposition
  and then reorders combining marks; an ASCII character has no decomposition and is no
  combining mark, so the ASCII characters that the encoding keeps are, in order, those
  of the decompositions. (An \<open>e\<close> with an acute accent decomposes into \<open>e\<close> and a combining accent, of
  which \<open>e\<close> is kept; a Cyrillic letter has no ASCII character in its decomposition and
  leaves nothing.)
\<close>

definition to_ascii :: "(nat \<Rightarrow> str) \<Rightarrow> str \<Rightarrow> str" where
  "to_ascii table s =
     filter is_ascii (concat (map (\<lambda>c. if is_ascii c then [c] else table c) s))"

text \<open>
  \<open>re.sub(r"[-\s]+", "-", value)\<close>: every maximal run of hyphens and spaces becomes
  one hyphen.
\<close>

function collapse_separators :: "str \<Rightarrow> str" where
  "collapse_separators [] = []"
| "collapse_separators (c # cs) =
     (if is_separator c then hyphen # collapse_separators (dropWhile is_separator cs)
      else c # collapse_separators cs)"
  by pat_completeness auto
termination
  by (relation "measure length") (auto simp: length_dropWhile_le less_Suc_eq_le)

text \<open>
  \<open>str.strip(chars)\<close>: the leading and the trailing characters of the set are
  removed.
\<close>

definition strip :: "(nat \<Rightarrow> bool) \<Rightarrow> str \<Rightarrow> str" where
  "strip P s = rev (dropWhile P (rev (dropWhile P s)))"

definition slugify :: "(nat \<Rightarrow> str) \<Rightarrow> str \<Rightarrow> str" where
  "slugify table s =
     strip (\<lambda>c. c = hyphen \<or> c = underscore)
       (collapse_separators
          (filter (\<lambda>c. is_word c \<or> is_space c \<or> c = hyphen)
             (map lower (to_ascii table s))))"

text \<open>
  \<open>uuid.uuid4().hex\<close>: the 32 lower-case hexadecimal digits of the 128-bit value,
  the most significant first.
\<close>

definition hex_digit :: "nat \<Rightarrow> nat" where
  "hex_digit n = (if n < 10 then 48 + n else 87 + n)"

definition uuid_hex :: "uuid \<Rightarrow> str" where
  "uuid_hex u = map (\<lambda>i. hex_digit (unat (drop_bit (4 * (31 - i)) u AND 15))) [0..<32]"

subsection \<open>ArtisanProfile\<close>

text \<open>
  \<open>Model.save\<close> for a profile (line 179). A row that is not refused for a column
  value is refused by \<open>unique=True\<close> on \<open>slug\<close> (line 123), by the uniqueness of the
  \<open>OneToOneField\<close> \<open>user\<close> (line 121) or by its foreign key.
\<close>

definition super_save_ArtisanProfile :: "platform \<Rightarrow> ArtisanProfile \<Rightarrow> db \<Rightarrow> result" where
  "super_save_ArtisanProfile pf p d =
     (if refuses_ArtisanProfile pf p then Inl (ColumnRefused, d)
      else if unique_conflict profile_id profile_slug p (artisan_profiles d)
        then Inl (UniqueViolation, d)
      else if unique_conflict profile_id profile_user p (artisan_profiles d)
        then Inl (UniqueViolation, d)
      else if \<not> fk_ok user_id (profile_user p) (users d) then Inl (ForeignKeyViolation, d)
      else Inr (d\<lparr>artisan_profiles := upsert profile_id p (artisan_profiles d)\<rparr>))"

text \<open>
  \<open>ArtisanProfile.save\<close>, lines 176 to 179. \<open>self.user\<close> follows the foreign key and
  raises \<open>DoesNotExist\<close> when the user row is missing.
\<close>

definition save_ArtisanProfile :: "platform \<Rightarrow> ArtisanProfile \<Rightarrow> db \<Rightarrow> result" where
  "save_ArtisanProfile pf p d =
     (if profile_slug p = [] then
        (case find (\<lambda>u. user_id u = profile_user p) (users d) of
           None \<Rightarrow> Inl (DoesNotExist, d)
         | Some u \<Rightarrow>
             super_save_ArtisanProfile pf
               (p\<lparr>profile_slug :=
                    slugify (nfkd pf) (profile_business_name p @ [hyphen] @ user_username u)\<rparr>) d)
      else super_save_ArtisanProfile pf p d)"

subsection \<open>ArtisanWork, UserFeed, ArtisanFeed\<close>

text \<open>
  The three \<open>save\<close> methods (lines 246 to 249, 353 to 356, 434 to 437) draw a random
  UUID for the suffix of the slug; the draw is the argument \<open>rnd\<close>. Their \<open>slug\<close>
  fields (lines 202, 299, 381) are \<open>SlugField(max_length=255, blank=True)\<close>, with no
  \<open>unique=True\<close>.
\<close>

definition super_save_ArtisanWork :: "platform \<Rightarrow> ArtisanWork \<Rightarrow> db \<Rightarrow> result" where
  "super_save_ArtisanWork pf w d =
     (if refuses_ArtisanWork pf w then Inl (ColumnRefused, d)
      else if \<not> fk_ok profile_id (work_artisan w) (artisan_profiles d)
        then Inl (ForeignKeyViolation, d)
      else Inr (d\<lparr>artisan_works := upsert work_id w (artisan_works d)\<rparr>))"

definition save_ArtisanWork :: "platform \<Rightarrow> uuid \<Rightarrow> ArtisanWork \<Rightarrow> db \<Rightarrow> result" where
  "save_ArtisanWork pf rnd w d =
     super_save_ArtisanWork pf
       (if work_slug w = []
        then w\<lparr>work_slug := slugify (nfkd pf) (work_title w @ [hyphen] @ take 8 (uuid_hex rnd))\<rparr>
        else w) d"

definition super_save_UserFeed :: "platform \<Rightarrow> UserFeed \<Rightarrow> db \<Rightarrow> result" where
  "super_save_UserFeed pf f d =
     (if refuses_UserFeed pf f then Inl (ColumnRefused, d)
      else if \<not> fk_ok user_id (ufeed_user f) (users d) then Inl (ForeignKeyViolation, d)
      else Inr (d\<lparr>user_feeds := upsert ufeed_id f (user_feeds d)\<rparr>))"

definition save_UserFeed :: "platform \<Rightarrow> uuid \<Rightarrow> UserFeed \<Rightarrow> db \<Rightarrow> result" where
  "save_UserFeed pf rnd f d =
     super_save_UserFeed pf
       (if ufeed_slug f = []
        then f\<lparr>ufeed_slug := slugify (nfkd pf) (ufeed_title f @ [hyphen] @ take 8 (uuid_hex rnd))\<rparr>
        else f) d"

definition super_save_ArtisanFeed :: "platform \<Rightarrow> ArtisanFeed \<Rightarrow> db \<Rightarrow> result" where
  "super_save_ArtisanFeed pf f d =
     (if refuses_ArtisanFeed pf f then Inl (ColumnRefused, d)
      else if \<not> fk_ok profile_id (afeed_artisan f) (artisan_profiles d)
        then Inl (ForeignKeyViolation, d)
      else Inr (d\<lparr>artisan_feeds := upsert afeed_id f (artisan_feeds d)\<rparr>))"

definition save_ArtisanFeed :: "platform \<Rightarrow> uuid \<Rightarrow> ArtisanFeed \<Rightarrow> db \<Rightarrow> result" where
  "save_ArtisanFeed pf rnd f d =
     super_save_ArtisanFeed pf
       (if afeed_slug f = []
        then f\<lparr>afeed_slug := slugify (nfkd pf) (afeed_title f @ [hyphen] @ take 8 (uuid_hex rnd))\<rparr>
        else f) d"

subsection \<open>Comment, Reaction, Report, ArtisanProposal\<close>

text \<open>
  These four classes do not override \<open>save\<close>: a write is \<open>Model.save\<close> with the
  constraints their fields and \<open>Meta\<close> declare. The self-reference
  \<open>parent_comment\<close> may name the row being written.
\<close>

definition save_Comment :: "Comment \<Rightarrow> db \<Rightarrow> result" where
  "save_Comment c d =
     (if fk_ok user_id (comment_user c) (users d)
         \<and> fk_ok_opt ufeed_id (comment_user_feed c) (user_feeds d)
         \<and> fk_ok_opt afeed_id (comment_artisan_feed c) (artisan_feeds d)
         \<and> fk_ok_opt comment_id (comment_parent_comment c) (c # comments d)
      then Inr (d\<lparr>comments := upsert comment_id c (comments d)\<rparr>)
      else Inl (ForeignKeyViolation, d))"

text \<open>
  \<open>unique_together\<close> of \<open>Reaction\<close> (line 535) covers three nullable columns. Whether
  two \<open>NULL\<close>s in a \<open>UNIQUE\<close> constraint count as equal is the database's choice, and
  the source does not name its database: under the SQL standard's default, which
  SQLite, PostgreSQL, MySQL and MariaDB follow, they are distinct (\<open>NullsDistinct\<close>) and
  two rows conflict only if every constrained column is non-null and equal; other
  engines (SQL Server, and Oracle for a key that is not entirely null) compare them as
  equal (\<open>NullsNotDistinct\<close>).
\<close>

datatype null_handling = NullsDistinct | NullsNotDistinct

definition column_equal :: "null_handling \<Rightarrow> 'a option \<Rightarrow> 'a option \<Rightarrow> bool" where
  "column_equal nh a b =
     (case (a, b) of
        (Some x, Some y) \<Rightarrow> x = y
      | (None, None) \<Rightarrow> nh = NullsNotDistinct
      | _ \<Rightarrow> False)"

definition reaction_unique_conflict :: "null_handling \<Rightarrow> Reaction \<Rightarrow> Reaction list \<Rightarrow> bool" where
  "reaction_unique_conflict nh r rows =
     list_ex (\<lambda>y. reaction_id y \<noteq> reaction_id r
        \<and> reaction_user y = reaction_user r
        \<and> reaction_content_type y = reaction_content_type r
        \<and> column_equal nh (reaction_user_feed y) (reaction_user_feed r)
        \<and> column_equal nh (reaction_artisan_feed y) (reaction_artisan_feed r)
        \<and> column_equal nh (reaction_comment y) (reaction_comment r)) rows"

definition save_Reaction :: "null_handling \<Rightarrow> Reaction \<Rightarrow> db \<Rightarrow> result" where
  "save_Reaction nh r d =
     (if reaction_unique_conflict nh r (reactions d) then Inl (UniqueViolation, d)
      else if fk_ok user_id (reaction_user r) (users d)
         \<and> fk_ok_opt ufeed_id (reaction_user_feed r) (user_feeds d)
         \<and> fk_ok_opt afeed_id (reaction_artisan_feed r) (artisan_feeds d)
         \<and> fk_ok_opt comment_id (reaction_comment r) (comments d)
      then Inr (d\<lparr>reactions := upsert reaction_id r (reactions d)\<rparr>)
      else Inl (ForeignKeyViolation, d))"

definition save_Report :: "Report \<Rightarrow> db \<Rightarrow> result" where
  "save_Report r d =
     (if fk_ok user_id (report_reporter r) (users d)
         \<and> fk_ok_opt ufeed_id (report_user_feed r) (user_feeds d)
         \<and> fk_ok_opt afeed_id (report_artisan_feed r) (artisan_feeds d)
         \<and> fk_ok_opt comment_id (report_comment r) (comments d)
         \<and> fk_ok_opt user_id (report_reported_user r) (users d)
         \<and> fk_ok_opt user_id (report_reviewed_by r) (users d)
      then Inr (d\<lparr>reports := upsert report_id r (reports d)\<rparr>)
      else Inl (ForeignKeyViolation, d))"


subsection \<open>Validators\<close>

text \<open>
  \<open>MinValueValidator(limit)\<close> and \<open>MaxValueValidator(limit)\<close> raise
  \<open>ValidationError\<close> when \<open>compare(value, limit)\<close> holds: \<open>value < limit\<close> for the
  first, \<open>value > limit\<close> for the second. The value \<open>True\<close> below is the raise.
\<close>

definition MinValueValidator :: "int \<Rightarrow> int \<Rightarrow> bool" where
  "MinValueValidator limit v = (v < limit)"

definition MaxValueValidator :: "int \<Rightarrow> int \<Rightarrow> bool" where
  "MaxValueValidator limit v = (v > limit)"

text \<open>\<open>Field.run_validators\<close>: every validator is called; any raise is a \<open>ValidationError\<close>.\<close>

definition run_validators :: "(int \<Rightarrow> bool) list \<Rightarrow> int \<Rightarrow> bool" where
  "run_validators vs v = list_ex (\<lambda>raises. raises v) vs"

text \<open>
  A field with \<open>blank=True\<close> whose value is empty (\<open>None\<close>) is skipped by
  \<open>Model.clean_fields\<close>.
\<close>

definition run_validators_blank :: "(int \<Rightarrow> bool) list \<Rightarrow> int option \<Rightarrow> bool" where
  "run_validators_blank vs v = (case v of None \<Rightarrow> False | Some x \<Rightarrow> run_validators vs x)"

text \<open>
  \<open>Model.clean_fields\<close>, which \<open>full_clean\<close> calls: it raises \<open>ValidationError\<close>
  when a validator of the \<open>validators=\<close> lists of the source raises (lines 127 and 140,
  the limits \<open>0.0\<close> and \<open>5.0\<close> in hundredths; lines 221 and 395), or when one of its
  other checks fails. \<open>Model.save\<close> does not call it, and no \<open>save\<close> of the source
  does.
\<close>

definition clean_fields_ArtisanProfile :: "platform \<Rightarrow> ArtisanProfile \<Rightarrow> error + unit" where
  "clean_fields_ArtisanProfile pf p =
     (if run_validators [MinValueValidator 0] (profile_years_of_experience p)
         \<or> run_validators [MinValueValidator 0, MaxValueValidator 500] (profile_average_rating p)
         \<or> also_invalid_ArtisanProfile pf p
      then Inl ValidationError else Inr ())"

definition clean_fields_ArtisanWork :: "platform \<Rightarrow> ArtisanWork \<Rightarrow> error + unit" where
  "clean_fields_ArtisanWork pf w =
     (if run_validators_blank [MinValueValidator 1, MaxValueValidator 5] (work_client_rating w)
         \<or> also_invalid_ArtisanWork pf w
      then Inl ValidationError else Inr ())"

definition clean_fields_ArtisanFeed :: "platform \<Rightarrow> ArtisanFeed \<Rightarrow> error + unit" where
  "clean_fields_ArtisanFeed pf f =
     (if run_validators_blank [MinValueValidator 0, MaxValueValidator 100]
           (afeed_discount_percentage f)
         \<or> also_invalid_ArtisanFeed pf f
      then Inl ValidationError else Inr ())"

subsection \<open>\<open>User.delete\<close>: the cascade\<close>

text \<open>
  \<open>Model.delete\<close> collects the rows that reference the deleted row through a foreign
  key with \<open>on_delete=CASCADE\<close>, then the rows that reference those, and so on, and
  deletes them all; a foreign key with \<open>on_delete=SET_NULL\<close> is set to \<open>NULL\<close> in the
  rows that stay. Each function below gives the primary keys collected in one table when
  user \<open>u\<close> is deleted.
\<close>

definition in_opt :: "uuid option \<Rightarrow> uuid list \<Rightarrow> bool" where
  "in_opt k ids = (case k of None \<Rightarrow> False | Some i \<Rightarrow> i \<in> set ids)"

text \<open>\<open>ArtisanProfile.user\<close> (line 121).\<close>

definition collected_profiles :: "uuid \<Rightarrow> db \<Rightarrow> uuid list" where
  "collected_profiles u d =
     map profile_id (filter (\<lambda>p. profile_user p = u) (artisan_profiles d))"

text \<open>\<open>ArtisanWork.artisan\<close> (line 198) and \<open>ArtisanWorkImage.work\<close> (line 260).\<close>

definition collected_works :: "uuid \<Rightarrow> db \<Rightarrow> uuid list" where
  "collected_works u d =
     map work_id (filter (\<lambda>w. work_artisan w \<in> set (collected_profiles u d)) (artisan_works d))"

definition collected_images :: "uuid \<Rightarrow> db \<Rightarrow> uuid list" where
  "collected_images u d =
     map image_id
       (filter (\<lambda>i. image_work i \<in> set (collected_works u d)) (artisan_work_images d))"

text \<open>\<open>UserFeed.user\<close> (line 297) and \<open>ArtisanFeed.artisan\<close> (line 377).\<close>

definition collected_user_feeds :: "uuid \<Rightarrow> db \<Rightarrow> uuid list" where
  "collected_user_feeds u d = map ufeed_id (filter (\<lambda>f. ufeed_user f = u) (user_feeds d))"

definition collected_artisan_feeds :: "uuid \<Rightarrow> db \<Rightarrow> uuid list" where
  "collected_artisan_feeds u d =
     map afeed_id
       (filter (\<lambda>f. afeed_artisan f \<in> set (collected_profiles u d)) (artisan_feeds d))"

text \<open>\<open>ArtisanProposal.user_feed\<close> and \<open>ArtisanProposal.artisan\<close> (lines 630 and 633).\<close>

definition collected_proposals :: "uuid \<Rightarrow> db \<Rightarrow> uuid list" where
  "collected_proposals u d =
     map proposal_id
       (filter (\<lambda>p. proposal_user_feed p \<in> set (collected_user_feeds u d)
                  \<or> proposal_artisan p \<in> set (collected_profiles u d)) (artisan_proposals d))"

text \<open>
  \<open>Comment.parent_comment\<close> (line 467) cascades from a comment to its replies, so the
  collection of comments is repeated until it finds no new reply.
\<close>

function collect_replies :: "Comment list \<Rightarrow> uuid list \<Rightarrow> uuid list" where
  "collect_replies cs seen =
     (let new = filter (\<lambda>c. comment_id c \<notin> set seen \<and> in_opt (comment_parent_comment c) seen) cs
      in if new = [] then seen else collect_replies cs (seen @ map comment_id new))"
  by pat_completeness auto
termination
proof (relation "measure (\<lambda>(cs, seen). card (comment_id ` set cs - set seen))")
  show "wf (measure (\<lambda>(cs, seen). card (comment_id ` set cs - set seen)))"
    by simp
next
  fix cs :: "Comment list" and seen :: "uuid list" and new
  assume new: "new = filter (\<lambda>c. comment_id c \<notin> set seen \<and> in_opt (comment_parent_comment c) seen) cs"
    and ne: "new \<noteq> []"
  from ne obtain c where c: "c \<in> set new" by (cases new) auto
  with new have c1: "c \<in> set cs" and c2: "comment_id c \<notin> set seen" by auto
  have "comment_id ` set cs - set (seen @ map comment_id new) \<subset> comment_id ` set cs - set seen"
    using c c1 c2 by auto
  then have "card (comment_id ` set cs - set (seen @ map comment_id new))
      < card (comment_id ` set cs - set seen)"
    by (intro psubset_card_mono) auto
  then show "((cs, seen @ map comment_id new), (cs, seen))
      \<in> measure (\<lambda>(cs, seen). card (comment_id ` set cs - set seen))"
    by simp
qed

text \<open>
  \<open>Comment.user\<close>, \<open>Comment.user_feed\<close> and \<open>Comment.artisan_feed\<close> (lines 454, 458
  and 461), then the replies.
\<close>

definition collected_comments :: "uuid \<Rightarrow> db \<Rightarrow> uuid list" where
  "collected_comments u d =
     collect_replies (comments d)
       (map comment_id
          (filter (\<lambda>c. comment_user c = u
                     \<or> in_opt (comment_user_feed c) (collected_user_feeds u d)
                     \<or> in_opt (comment_artisan_feed c) (collected_artisan_feeds u d))
             (comments d)))"

text \<open>The four cascading foreign keys of \<open>Reaction\<close> (lines 514 to 527).\<close>

definition collected_reactions :: "uuid \<Rightarrow> db \<Rightarrow> uuid list" where
  "collected_reactions u d =
     map reaction_id
       (filter (\<lambda>r. reaction_user r = u
                  \<or> in_opt (reaction_user_feed r) (collected_user_feeds u d)
                  \<or> in_opt (reaction_artisan_feed r) (collected_artisan_feeds u d)
                  \<or> in_opt (reaction_comment r) (collected_comments u d))
          (reactions d))"

text \<open>
  The five cascading foreign keys of \<open>Report\<close> (lines 571 to 586): the reporter, the
  three kinds of content and the reported user.
\<close>

definition collected_reports :: "uuid \<Rightarrow> db \<Rightarrow> uuid list" where
  "collected_reports u d =
     map report_id
       (filter (\<lambda>r. report_reporter r = u
                  \<or> report_reported_user r = Some u
                  \<or> in_opt (report_user_feed r) (collected_user_feeds u d)
                  \<or> in_opt (report_artisan_feed r) (collected_artisan_feeds u d)
                  \<or> in_opt (report_comment r) (collected_comments u d))
          (reports d))"

text \<open>\<open>Report.reviewed_by\<close> is \<open>on_delete=SET_NULL\<close> (lines 594 to 597).\<close>

definition set_null_reviewed_by :: "uuid \<Rightarrow> Report \<Rightarrow> Report" where
  "set_null_reviewed_by u r =
     (if report_reviewed_by r = Some u then r\<lparr>report_reviewed_by := None\<rparr> else r)"

text \<open>\<open>Role.user\<close> (line 78) cascades too; the user's own row goes last.\<close>

definition delete_User :: "uuid \<Rightarrow> db \<Rightarrow> db" where
  "delete_User u d =
     \<lparr>users = filter (\<lambda>x. user_id x \<noteq> u) (users d),
      roles = filter (\<lambda>x. role_user x \<noteq> u) (roles d),
      artisan_profiles =
        filter (\<lambda>x. profile_id x \<notin> set (collected_profiles u d)) (artisan_profiles d),
      artisan_works = filter (\<lambda>x. work_id x \<notin> set (collected_works u d)) (artisan_works d),
      artisan_work_images =
        filter (\<lambda>x. image_id x \<notin> set (collected_images u d)) (artisan_work_images d),
      user_feeds = filter (\<lambda>x. ufeed_id x \<notin> set (collected_user_feeds u d)) (user_feeds d),
      artisan_feeds =
        filter (\<lambda>x. afeed_id x \<notin> set (collected_artisan_feeds u d)) (artisan_feeds d),
      comments = filter (\<lambda>x. comment_id x \<notin> set (collected_comments u d)) (comments d),
      reactions = filter (\<lambda>x. reaction_id x \<notin> set (collected_reactions u d)) (reactions d),
      reports =
        map (set_null_reviewed_by u)
          (filter (\<lambda>x. report_id x \<notin> set (collected_reports u d)) (reports d)),
      artisan_proposals =
        filter (\<lambda>x. proposal_id x \<notin> set (collected_proposals u d)) (artisan_proposals d)\<rparr>"

subsection \<open>The stated invariants\<close>

text \<open>The ranges of the three validated columns, over the stored rows.\<close>

definition in_range_opt :: "int \<Rightarrow> int \<Rightarrow> int option \<Rightarrow> bool" where
  "in_range_opt lo hi v = (case v of None \<Rightarrow> True | Some x \<Rightarrow> lo \<le> x \<and> x \<le> hi)"

definition ranges_hold :: "db \<Rightarrow> bool" where
  "ranges_hold d =
     (list_all (\<lambda>p. 0 \<le> profile_average_rating p \<and> profile_average_rating p \<le> 500)
        (artisan_profiles d)
      \<and> list_all (\<lambda>w. in_range_opt 1 5 (work_client_rating w)) (artisan_works d)
      \<and> list_all (\<lambda>f. in_range_opt 0 100 (afeed_discount_percentage f)) (artisan_feeds d))"

text \<open>
  Exactly one target foreign key is set, and it is the one the discriminator names.
\<close>

definition comment_target_ok :: "Comment \<Rightarrow> bool" where
  "comment_target_ok c =
     (case comment_comment_type c of
        Comment_USER_FEED \<Rightarrow> comment_user_feed c \<noteq> None \<and> comment_artisan_feed c = None
      | Comment_ARTISAN_FEED \<Rightarrow> comment_user_feed c = None \<and> comment_artisan_feed c \<noteq> None)"

definition reaction_target_ok :: "Reaction \<Rightarrow> bool" where
  "reaction_target_ok r =
     (case reaction_content_type r of
        Reaction_USER_FEED \<Rightarrow>
          reaction_user_feed r \<noteq> None \<and> reaction_artisan_feed r = None
          \<and> reaction_comment r = None
      | Reaction_ARTISAN_FEED \<Rightarrow>
          reaction_user_feed r = None \<and> reaction_artisan_feed r \<noteq> None
          \<and> reaction_comment r = None
      | Reaction_COMMENT \<Rightarrow>
          reaction_user_feed r = None \<and> reaction_artisan_feed r = None
          \<and> reaction_comment r \<noteq> None)"

definition report_target_ok :: "Report \<Rightarrow> bool" where
  "report_target_ok r =
     (case report_content_type r of
        Report_USER_FEED \<Rightarrow>
          report_user_feed r \<noteq> None \<and> report_artisan_feed r = None
          \<and> report_comment r = None \<and> report_reported_user r = None
      | Report_ARTISAN_FEED \<Rightarrow>
          report_user_feed r = None \<and> report_artisan_feed r \<noteq> None
          \<and> report_comment r = None \<and> report_reported_user r = None
      | Report_COMMENT \<Rightarrow>
          report_user_feed r = None \<and> report_artisan_feed r = None
          \<and> report_comment r \<noteq> None \<and> report_reported_user r = None
      | Report_USER \<Rightarrow>
          report_user_feed r = None \<and> report_artisan_feed r = None
          \<and> report_comment r = None \<and> report_reported_user r \<noteq> None)"

definition targets_ok :: "db \<Rightarrow> bool" where
  "targets_ok d =
     (list_all comment_target_ok (comments d) \<and> list_all reaction_target_ok (reactions d)
      \<and> list_all report_target_ok (reports d))"

text \<open>The reactions of a user on a job request.\<close>

definition reactions_on_user_feed :: "uuid \<Rightarrow> uuid \<Rightarrow> db \<Rightarrow> Reaction list" where
  "reactions_on_user_feed u f d =
     filter (\<lambda>r. reaction_user r = u \<and> reaction_content_type r = Reaction_USER_FEED
               \<and> reaction_user_feed r = Some f) (reactions d)"


text \<open>
  The characters of a URL-safe slug: a digit, a lower-case letter, the hyphen or the
  underscore; and a text in which no two hyphens are adjacent.
\<close>

definition url_safe :: "nat \<Rightarrow> bool" where
  "url_safe c = ((48 \<le> c \<and> c \<le> 57) \<or> (97 \<le> c \<and> c \<le> 122) \<or> c = hyphen \<or> c = underscore)"

fun no_double_hyphen :: "str \<Rightarrow> bool" where
  "no_double_hyphen (a # b # cs) = (\<not> (a = hyphen \<and> b = hyphen) \<and> no_double_hyphen (b # cs))"
| "no_double_hyphen cs = True"

subsection \<open>The rows of the scenarios\<close>

text \<open>
  The scenarios are evaluated on SQLite, Django's default database, under a Django from
  3.2 to 5.1. There the write of a decimal of more than \<open>max_digits\<close> digits raises
  \<open>decimal.InvalidOperation\<close>, that of an integer above \<open>2\<^sup>6\<^sup>3 - 1\<close> raises
  \<open>OverflowError\<close>, and the \<open>CHECK\<close> of a \<open>PositiveIntegerField\<close> refuses a negative
  value; the columns left out of the records are taken to hold values that are neither
  refused nor invalid. Of the table of \<open>unicodedata\<close>, \<open>scenario_nfkd\<close> has the two
  letters with a decomposition that the scenarios use: \<open>e\<close> with an acute accent (233) is
  \<open>e\<close> and the combining accent 769, \<open>u\<close> with a diaeresis (252) is \<open>u\<close> and the
  combining diaeresis 776.
\<close>

definition too_many_digits :: "nat \<Rightarrow> int \<Rightarrow> bool" where
  "too_many_digits max_digits v = (\<bar>v\<bar> \<ge> 10 ^ max_digits)"

definition outside_positive_integer :: "int \<Rightarrow> bool" where
  "outside_positive_integer v = (v < 0 \<or> v > 9223372036854775807)"

definition outside_positive_integer_opt :: "int option \<Rightarrow> bool" where
  "outside_positive_integer_opt v =
     (case v of None \<Rightarrow> False | Some x \<Rightarrow> outside_positive_integer x)"

definition scenario_nfkd :: "nat \<Rightarrow> str" where
  "scenario_nfkd c = (if c = 233 then [101, 769] else if c = 252 then [117, 776] else [c])"

definition scenario_platform :: platform where
  "scenario_platform =
     \<lparr>nfkd = scenario_nfkd,
      refuses_ArtisanProfile =
        (\<lambda>p. too_many_digits 3 (profile_average_rating p)
              \<or> outside_positive_integer (profile_years_of_experience p)),
      refuses_ArtisanWork = (\<lambda>w. outside_positive_integer_opt (work_client_rating w)),
      refuses_UserFeed = (\<lambda>f. False),
      refuses_ArtisanFeed = (\<lambda>f. outside_positive_integer_opt (afeed_discount_percentage f)),
      refuses_ArtisanProposal =
        (\<lambda>p. too_many_digits 10 (proposal_proposed_price p)
              \<or> outside_positive_integer (proposal_estimated_duration p)),
      also_invalid_ArtisanProfile = (\<lambda>p. False),
      also_invalid_ArtisanWork = (\<lambda>w. False),
      also_invalid_ArtisanFeed = (\<lambda>f. False)\<rparr>"

text \<open>User A, and the two roles assigned to A one after the other.\<close>

definition user_A :: User where
  "user_A = \<lparr>user_id = 1, user_email = str_of ''a@x.com'', user_username = str_of ''a'',
     user_full_name = str_of ''A''\<rparr>"

definition role_plumber :: Role where
  "role_plumber = \<lparr>role_id = 10, role_user = 1, role_role_type = PLUMBER,
     role_is_primary = True, role_is_active = True\<rparr>"

definition role_electrician :: Role where
  "role_electrician = \<lparr>role_id = 11, role_user = 1, role_role_type = ELECTRICIAN,
     role_is_primary = True, role_is_active = True\<rparr>"

text \<open>An artisan with a profile, and a job request of user A.\<close>

definition user_B :: User where
  "user_B = \<lparr>user_id = 2, user_email = str_of ''b@x.com'', user_username = str_of ''ace1'',
     user_full_name = str_of ''B''\<rparr>"

definition profile_ArtisanA :: ArtisanProfile where
  "profile_ArtisanA = \<lparr>profile_id = 20, profile_user = 2,
     profile_business_name = str_of ''Ace Plumbing'', profile_slug = str_of ''ace-plumbing-ace1'',
     profile_years_of_experience = 7, profile_average_rating = 450\<rparr>"

definition feed_F :: UserFeed where
  "feed_F = \<lparr>ufeed_id = 30, ufeed_user = 1, ufeed_title = str_of ''Leaking pipe'',
     ufeed_slug = str_of ''leaking-pipe-0a1b2c3d''\<rparr>"

definition marketplace_db :: db where
  "marketplace_db = empty_db\<lparr>users := [user_A, user_B],
     artisan_profiles := [profile_ArtisanA], user_feeds := [feed_F]\<rparr>"

definition proposal_first :: ArtisanProposal where
  "proposal_first = \<lparr>proposal_id = 40, proposal_user_feed = 30, proposal_artisan = 20,
     proposal_proposed_price = 25000, proposal_estimated_duration = 3,
     proposal_status = Proposal_PENDING\<rparr>"


text \<open>
  A user whose username is an underscore, with a business named by three asterisks; and
  a user and a business with Cyrillic names (the code points from 1052 to 1090), none of
  whose letters has a decomposition.
\<close>

definition user_C :: User where
  "user_C = \<lparr>user_id = 3, user_email = str_of ''c@x.com'', user_username = str_of ''_'',
     user_full_name = str_of ''C''\<rparr>"

definition profile_stars :: ArtisanProfile where
  "profile_stars = \<lparr>profile_id = 21, profile_user = 3,
     profile_business_name = str_of ''***'', profile_slug = [],
     profile_years_of_experience = 1, profile_average_rating = 0\<rparr>"

definition user_D :: User where
  "user_D = \<lparr>user_id = 4, user_email = str_of ''d@x.com'',
     user_username = [1084, 1080, 1088],
     user_full_name = str_of ''D''\<rparr>"

definition profile_cyrillic :: ArtisanProfile where
  "profile_cyrillic = \<lparr>profile_id = 22, profile_user = 4,
     profile_business_name = [1052, 1072, 1089, 1090, 1077, 1088],
     profile_slug = [], profile_years_of_experience = 12, profile_average_rating = 480\<rparr>"

text \<open>
  A user "jo" whose business is named "Cafe Muller" with an acute accent on the \<open>e\<close>
  (233) and a diaeresis on the \<open>u\<close> (252).
\<close>

definition user_J :: User where
  "user_J = \<lparr>user_id = 6, user_email = str_of ''j@x.com'', user_username = str_of ''jo'',
     user_full_name = str_of ''J''\<rparr>"

definition profile_cafe :: ArtisanProfile where
  "profile_cafe = \<lparr>profile_id = 24, profile_user = 6,
     profile_business_name = str_of ''Caf'' @ [233] @ str_of '' M'' @ [252] @ str_of ''ller'',
     profile_slug = [], profile_years_of_experience = 3, profile_average_rating = 0\<rparr>"

text \<open>A second job request of user A, written with the slug of the first.\<close>

definition feed_G :: UserFeed where
  "feed_G = \<lparr>ufeed_id = 31, ufeed_user = 1, ufeed_title = str_of ''Leaking pipe, again'',
     ufeed_slug = str_of ''leaking-pipe-0a1b2c3d''\<rparr>"

text \<open>A promotion and a portfolio work of ArtisanA, with values outside their ranges.\<close>

definition afeed_promo :: ArtisanFeed where
  "afeed_promo = \<lparr>afeed_id = 50, afeed_artisan = 20, afeed_title = str_of ''Winter offer'',
     afeed_slug = str_of ''winter-offer-1a2b3c4d'', afeed_discount_percentage = Some 150\<rparr>"

definition work_bath :: ArtisanWork where
  "work_bath = \<lparr>work_id = 60, work_artisan = 20, work_title = str_of ''Bathroom refit'',
     work_slug = str_of ''bathroom-refit-5e6f7a8b'', work_client_rating = Some 9\<rparr>"

text \<open>
  A second portfolio work and a second promotion of ArtisanA, written with the slugs of
  the first ones.
\<close>

definition work_kitchen :: ArtisanWork where
  "work_kitchen = \<lparr>work_id = 62, work_artisan = 20, work_title = str_of ''Kitchen refit'',
     work_slug = str_of ''bathroom-refit-5e6f7a8b'', work_client_rating = None\<rparr>"

definition afeed_spring :: ArtisanFeed where
  "afeed_spring = \<lparr>afeed_id = 51, afeed_artisan = 20, afeed_title = str_of ''Spring offer'',
     afeed_slug = str_of ''winter-offer-1a2b3c4d'', afeed_discount_percentage = None\<rparr>"

text \<open>
  A comment that names no target, and a report that names two; three reactions of
  ArtisanA's user on job request F.
\<close>

definition comment_untargeted :: Comment where
  "comment_untargeted = \<lparr>comment_id = 84, comment_user = 1,
     comment_comment_type = Comment_USER_FEED, comment_user_feed = None,
     comment_artisan_feed = None, comment_content = str_of ''When can you start?'',
     comment_parent_comment = None\<rparr>"

definition report_two_targets :: Report where
  "report_two_targets = \<lparr>report_id = 94, report_reporter = 1,
     report_content_type = Report_COMMENT, report_user_feed = Some 30,
     report_artisan_feed = None, report_comment = None, report_reported_user = Some 2,
     report_reason = SPAM, report_description = str_of ''advertising'', report_status = PENDING,
     report_reviewed_by = None, report_resolution_notes = []\<rparr>"

definition reaction_like :: Reaction where
  "reaction_like = \<lparr>reaction_id = 70, reaction_user = 2, reaction_reaction_type = LIKE,
     reaction_content_type = Reaction_USER_FEED, reaction_user_feed = Some 30,
     reaction_artisan_feed = None, reaction_comment = None\<rparr>"

definition reaction_like_again :: Reaction where
  "reaction_like_again = \<lparr>reaction_id = 71, reaction_user = 2, reaction_reaction_type = LIKE,
     reaction_content_type = Reaction_USER_FEED, reaction_user_feed = Some 30,
     reaction_artisan_feed = None, reaction_comment = None\<rparr>"

definition reaction_dislike :: Reaction where
  "reaction_dislike = \<lparr>reaction_id = 72, reaction_user = 2, reaction_reaction_type = DISLIKE,
     reaction_content_type = Reaction_USER_FEED, reaction_user_feed = Some 30,
     reaction_artisan_feed = None, reaction_comment = None\<rparr>"

text \<open>
  A database in which ArtisanA's user (id 2) owns a role, the profile with a portfolio
  work, an image and a promotion, has a proposal on job request F of user A, and has
  commented, reacted and reported; user A has replied to that comment and commented on
  the promotion; a moderator (id 5) has reported too. ArtisanA's user has reviewed four
  reports: one by the moderator on a comment of user A, one by user A on ArtisanA's
  promotion, one of the user's own, and one by user A against ArtisanA's user.
\<close>

definition user_M :: User where
  "user_M = \<lparr>user_id = 5, user_email = str_of ''m@x.com'', user_username = str_of ''mod'',
     user_full_name = str_of ''M''\<rparr>"

definition role_B :: Role where
  "role_B = \<lparr>role_id = 13, role_user = 2, role_role_type = ARTISAN,
     role_is_primary = True, role_is_active = True\<rparr>"

definition image_bath :: ArtisanWorkImage where
  "image_bath = \<lparr>image_id = 61, image_work = 60, image_order = 0\<rparr>"

definition comment_B :: Comment where
  "comment_B = \<lparr>comment_id = 80, comment_user = 2,
     comment_comment_type = Comment_USER_FEED, comment_user_feed = Some 30,
     comment_artisan_feed = None, comment_content = str_of ''I can come on Monday'',
     comment_parent_comment = None\<rparr>"

definition comment_reply :: Comment where
  "comment_reply = \<lparr>comment_id = 81, comment_user = 1,
     comment_comment_type = Comment_USER_FEED, comment_user_feed = Some 30,
     comment_artisan_feed = None, comment_content = str_of ''Monday is fine'',
     comment_parent_comment = Some 80\<rparr>"

definition comment_on_promo :: Comment where
  "comment_on_promo = \<lparr>comment_id = 82, comment_user = 1,
     comment_comment_type = Comment_ARTISAN_FEED, comment_user_feed = None,
     comment_artisan_feed = Some 50, comment_content = str_of ''Is this still valid?'',
     comment_parent_comment = None\<rparr>"

definition comment_A :: Comment where
  "comment_A = \<lparr>comment_id = 83, comment_user = 1,
     comment_comment_type = Comment_USER_FEED, comment_user_feed = Some 30,
     comment_artisan_feed = None, comment_content = str_of ''Still looking'',
     comment_parent_comment = None\<rparr>"

definition reaction_on_reply :: Reaction where
  "reaction_on_reply = \<lparr>reaction_id = 73, reaction_user = 5, reaction_reaction_type = LIKE,
     reaction_content_type = Reaction_COMMENT, reaction_user_feed = None,
     reaction_artisan_feed = None, reaction_comment = Some 81\<rparr>"

definition reaction_M :: Reaction where
  "reaction_M = \<lparr>reaction_id = 74, reaction_user = 5, reaction_reaction_type = LIKE,
     reaction_content_type = Reaction_USER_FEED, reaction_user_feed = Some 30,
     reaction_artisan_feed = None, reaction_comment = None\<rparr>"

definition report_kept :: Report where
  "report_kept = \<lparr>report_id = 90, report_reporter = 5,
     report_content_type = Report_COMMENT, report_user_feed = None,
     report_artisan_feed = None, report_comment = Some 83, report_reported_user = None,
     report_reason = OTHER, report_description = str_of ''off topic'', report_status = RESOLVED,
     report_reviewed_by = Some 2, report_resolution_notes = str_of ''fine''\<rparr>"

definition report_on_promo :: Report where
  "report_on_promo = \<lparr>report_id = 91, report_reporter = 1,
     report_content_type = Report_ARTISAN_FEED, report_user_feed = None,
     report_artisan_feed = Some 50, report_comment = None, report_reported_user = None,
     report_reason = MISLEADING, report_description = str_of ''price differs'',
     report_status = DISMISSED, report_reviewed_by = Some 2, report_resolution_notes = []\<rparr>"

definition report_own :: Report where
  "report_own = \<lparr>report_id = 92, report_reporter = 2,
     report_content_type = Report_USER_FEED, report_user_feed = Some 30,
     report_artisan_feed = None, report_comment = None, report_reported_user = None,
     report_reason = SPAM, report_description = str_of ''duplicate request'',
     report_status = RESOLVED, report_reviewed_by = Some 2, report_resolution_notes = []\<rparr>"

definition report_against_B :: Report where
  "report_against_B = \<lparr>report_id = 93, report_reporter = 1,
     report_content_type = Report_USER, report_user_feed = None,
     report_artisan_feed = None, report_comment = None, report_reported_user = Some 2,
     report_reason = HARASSMENT, report_description = str_of ''rude messages'',
     report_status = DISMISSED, report_reviewed_by = Some 2, report_resolution_notes = []\<rparr>"

definition report_by_M :: Report where
  "report_by_M = \<lparr>report_id = 95, report_reporter = 5,
     report_content_type = Report_USER, report_user_feed = None,
     report_artisan_feed = None, report_comment = None, report_reported_user = Some 1,
     report_reason = SCAM, report_description = str_of ''fake invoice'',
     report_status = UNDER_REVIEW, report_reviewed_by = Some 5, report_resolution_notes = []\<rparr>"

definition busy_db :: db where
  "busy_db = \<lparr>users = [user_A, user_B, user_M],
     roles = [role_plumber, role_B],
     artisan_profiles = [profile_ArtisanA],
     artisan_works = [work_bath],
     artisan_work_images = [image_bath],
     user_feeds = [feed_F],
     artisan_feeds = [afeed_promo],
     comments = [comment_B, comment_reply, comment_on_promo, comment_A],
     reactions = [reaction_like, reaction_on_reply, reaction_M],
     reports = [report_kept, report_on_promo, report_own, report_against_B, report_by_M],
     artisan_proposals = [proposal_first]\<rparr>"

section \<open>Properties\<close>

subsection \<open>Rows and primary keys\<close>

lemma set_upsert: "set (upsert pk x rows) \<subseteq> insert x (set rows)"
  by (auto simp: upsert_def)

lemma map_pk_upsert:
  "map pk (upsert pk x rows) = (if pk x \<in> set (map pk rows) then map pk rows else map pk rows @ [pk x])"
  by (induction rows) (auto simp: upsert_def)

lemma distinct_upsert: "distinct (map pk rows) \<Longrightarrow> distinct (map pk (upsert pk x rows))"
  by (simp add: map_pk_upsert)

lemma unique_conflict_iff:
  "unique_conflict pk key x rows \<longleftrightarrow> (\<exists>y\<in>set rows. pk y \<noteq> pk x \<and> key y = key x)"
  by (simp add: unique_conflict_def list_ex_iff)




lemma in_upsert: "x \<in> set (upsert pk x rows)"
  by (auto simp: upsert_def image_iff)

lemma upsert_same_pk: "y \<in> set (upsert pk x rows) \<Longrightarrow> pk y = pk x \<Longrightarrow> y = x"
  by (auto simp: upsert_def image_iff split: if_splits)

lemma list_all_upsert: "list_all P rows \<Longrightarrow> P x \<Longrightarrow> list_all P (upsert pk x rows)"
  by (auto simp: upsert_def list_all_iff)


subsection \<open>Role exclusivity\<close>

lemma map_role_id_demote: "map role_id (demote_primary u rows) = map role_id rows"
  by (simp add: demote_primary_def)

lemma demote_primary_not_primary:
  assumes "x \<in> set (demote_primary u rows)" and u: "role_user x = u"
  shows "\<not> role_is_primary x"
proof -
  from assms(1) have
    "x \<in> (\<lambda>y. if role_user y = u \<and> role_is_primary y then y\<lparr>role_is_primary := False\<rparr> else y) ` set rows"
    unfolding demote_primary_def by simp
  then obtain y where
    x: "x = (if role_user y = u \<and> role_is_primary y then y\<lparr>role_is_primary := False\<rparr> else y)"
    by (rule imageE)
  show ?thesis
  proof (cases "role_user y = u \<and> role_is_primary y")
    case True
    with x show ?thesis by simp
  next
    case False
    with x have "x = y" by simp
    with False u show ?thesis by simp
  qed
qed

lemma filter_replace_le:
  "\<not> P x \<Longrightarrow> length (filter P (map (\<lambda>y. if pk y = k then x else y) rows)) \<le> length (filter P rows)"
  by (induction rows) auto

lemma filter_upsert_le:
  "\<not> P x \<Longrightarrow> length (filter P (upsert pk x rows)) \<le> length (filter P rows)"
  using filter_replace_le [of P x pk "pk x" rows] by (simp add: upsert_def)

lemma filter_demote_le:
  "length (filter (\<lambda>x. role_user x = u \<and> role_is_primary x) (demote_primary v rows))
     \<le> length (filter (\<lambda>x. role_user x = u \<and> role_is_primary x) rows)"
  by (induction rows) (auto simp: demote_primary_def)

lemma filter_same_key_le_1:
  "distinct (map f xs) \<Longrightarrow> \<forall>x\<in>set xs. P x \<longrightarrow> f x = k \<Longrightarrow> length (filter P xs) \<le> 1"
proof (induction xs)
  case Nil
  then show ?case by simp
next
  case (Cons a xs)
  show ?case
  proof (cases "P a")
    case True
    with Cons.prems have "\<forall>x\<in>set xs. \<not> P x" by (auto simp: image_iff)
    then have "filter P xs = []" by (simp add: filter_empty_conv)
    with True show ?thesis by simp
  next
    case False
    with Cons show ?thesis by simp
  qed
qed

lemma find_user_None: "find (\<lambda>u. user_id u = k) us = None \<longleftrightarrow> \<not> fk_ok user_id k us"
  by (auto simp: find_None_iff fk_ok_def)

lemma find_user_Some: "find (\<lambda>u. user_id u = k) us = Some u \<Longrightarrow> user_id u = k"
  by (auto simp: find_Some_iff)

text \<open>
  The table of roles after \<open>Role.save\<close>, returned or raised: untouched when the user
  row is missing, otherwise demoted for a primary role and then written unless
  \<open>unique_together\<close> refuses the row.
\<close>

lemma roles_state_of_save_Role:
  "roles (state_of (save_Role r d)) =
     (if \<not> fk_ok user_id (role_user r) (users d) then roles d
      else let rows = (if role_is_primary r then demote_primary (role_user r) (roles d)
                       else roles d)
           in if unique_conflict role_id (\<lambda>x. (role_user x, role_role_type x)) r rows
              then rows else upsert role_id r rows)"
proof (cases "find (\<lambda>u. user_id u = role_user r) (users d)")
  case None
  then have "\<not> fk_ok user_id (role_user r) (users d)" by (simp add: find_user_None)
  with None show ?thesis
    by (simp add: save_Role_def demote_others_def super_save_Role_def state_of_def)
next
  case (Some u)
  then have u: "user_id u = role_user r" by (rule find_user_Some)
  from Some have "find (\<lambda>u. user_id u = role_user r) (users d) \<noteq> None" by simp
  then have "fk_ok user_id (role_user r) (users d)" by (simp add: find_user_None)
  with Some u show ?thesis
    by (simp add: save_Role_def demote_others_def super_save_Role_def state_of_def Let_def)
qed

lemma distinct_roles_save_Role:
  "distinct (map role_id (roles d)) \<Longrightarrow> distinct (map role_id (roles (state_of (save_Role r d))))"
  by (simp add: roles_state_of_save_Role Let_def distinct_upsert map_role_id_demote)

lemma others_demoted:
  assumes "role_is_primary r" and "fk_ok user_id (role_user r) (users d)"
    and "x \<in> set (roles (state_of (save_Role r d)))"
    and "role_user x = role_user r" and "role_id x \<noteq> role_id r"
  shows "\<not> role_is_primary x"
proof -
  have "x \<in> set (demote_primary (role_user r) (roles d))"
    using assms(1,2,3,5) set_upsert [of role_id r "demote_primary (role_user r) (roles d)"]
    by (auto simp: roles_state_of_save_Role Let_def split: if_splits)
  then show ?thesis using assms(4) by (rule demote_primary_not_primary)
qed

lemma primary_le_1_after:
  assumes "distinct (map role_id (roles d))" and "role_is_primary r"
    and "fk_ok user_id (role_user r) (users d)"
  shows "length (primary_roles (role_user r) (state_of (save_Role r d))) \<le> 1"
  unfolding primary_roles_def
proof (rule filter_same_key_le_1 [where f = role_id and k = "role_id r"])
  show "distinct (map role_id (roles (state_of (save_Role r d))))"
    using assms(1) by (rule distinct_roles_save_Role)
  show "\<forall>x\<in>set (roles (state_of (save_Role r d))).
          role_user x = role_user r \<and> role_is_primary x \<longrightarrow> role_id x = role_id r"
    using others_demoted [OF assms(2,3)] by blast
qed

lemma primary_other_le:
  assumes "u \<noteq> role_user r \<or> \<not> role_is_primary r"
  shows "length (primary_roles u (state_of (save_Role r d))) \<le> length (primary_roles u d)"
proof -
  let ?P = "\<lambda>x. role_user x = u \<and> role_is_primary x"
  define rows where
    "rows = (if role_is_primary r then demote_primary (role_user r) (roles d) else roles d)"
  from assms have np: "\<not> ?P r" by auto
  have de: "length (filter ?P rows) \<le> length (filter ?P (roles d))"
    unfolding rows_def using filter_demote_le [of u "role_user r" "roles d"] by simp
  have "roles (state_of (save_Role r d)) = roles d
      \<or> roles (state_of (save_Role r d)) = rows
      \<or> roles (state_of (save_Role r d)) = upsert role_id r rows"
    unfolding rows_def roles_state_of_save_Role Let_def by simp
  then have "length (filter ?P (roles (state_of (save_Role r d)))) \<le> length (filter ?P (roles d))"
    using filter_upsert_le [of ?P r role_id rows, OF np] de by auto
  then show ?thesis unfolding primary_roles_def .
qed

lemma inv_all_users:
  assumes "distinct (map role_id (roles d))" and "\<forall>u. length (primary_roles u d) \<le> 1"
  shows "length (primary_roles u (state_of (save_Role r d))) \<le> 1"
proof (cases "u \<noteq> role_user r \<or> \<not> role_is_primary r")
  case True
  have "length (primary_roles u (state_of (save_Role r d))) \<le> length (primary_roles u d)"
    using True by (rule primary_other_le)
  moreover have "length (primary_roles u d) \<le> 1" using assms(2) by simp
  ultimately show ?thesis by linarith
next
  case False
  show ?thesis
  proof (cases "fk_ok user_id (role_user r) (users d)")
    case True
    with False primary_le_1_after [OF assms(1), of r] show ?thesis by simp
  next
    case no_user: False
    then have "roles (state_of (save_Role r d)) = roles d"
      by (simp add: roles_state_of_save_Role)
    then have "primary_roles u (state_of (save_Role r d)) = primary_roles u d"
      by (simp add: primary_roles_def)
    with assms(2) show ?thesis by simp
  qed
qed

text \<open>
  When its two statements run with no other statement between them, \<open>Role.save\<close>
  does what its comment (line 95) says. After the save of a primary Role whose user
  exists, returned or raised, every other Role of that user is not primary and the user
  has at most one primary Role; and any save of a Role keeps "every user has at most one
  primary Role".
\<close>

lemma save_Role_alone_keeps_one_primary:
  assumes "distinct (map role_id (roles d))"
  shows "role_is_primary r \<and> fk_ok user_id (role_user r) (users d) \<longrightarrow>
        (\<forall>x\<in>set (roles (state_of (save_Role r d))).
            role_user x = role_user r \<and> role_id x \<noteq> role_id r \<longrightarrow> \<not> role_is_primary x)
        \<and> length (primary_roles (role_user r) (state_of (save_Role r d))) \<le> 1"
    and "(\<forall>u. length (primary_roles u d) \<le> 1)
          \<longrightarrow> (\<forall>u. length (primary_roles u (state_of (save_Role r d))) \<le> 1)"
    and "distinct (map role_id (roles (state_of (save_Role r d))))"
proof -
  show "role_is_primary r \<and> fk_ok user_id (role_user r) (users d) \<longrightarrow>
        (\<forall>x\<in>set (roles (state_of (save_Role r d))).
            role_user x = role_user r \<and> role_id x \<noteq> role_id r \<longrightarrow> \<not> role_is_primary x)
        \<and> length (primary_roles (role_user r) (state_of (save_Role r d))) \<le> 1"
    using others_demoted [of r d] primary_le_1_after [OF assms, of r] by blast
  show "(\<forall>u. length (primary_roles u d) \<le> 1)
          \<longrightarrow> (\<forall>u. length (primary_roles u (state_of (save_Role r d))) \<le> 1)"
    using inv_all_users [OF assms] by blast
  show "distinct (map role_id (roles (state_of (save_Role r d))))"
    using assms by (rule distinct_roles_save_Role)
qed

text \<open>
  The scenario run one call after the other: PLUMBER is saved as primary for user A,
  then ELECTRICIAN; PLUMBER ends non-primary and ELECTRICIAN primary.
\<close>

lemma save_Role_plumber_then_electrician:
  "save_Role role_plumber (empty_db\<lparr>users := [user_A]\<rparr>)
     = Inr (empty_db\<lparr>users := [user_A], roles := [role_plumber]\<rparr>)
   \<and> save_Role role_electrician (empty_db\<lparr>users := [user_A], roles := [role_plumber]\<rparr>)
     = Inr (empty_db\<lparr>users := [user_A],
              roles := [role_plumber\<lparr>role_is_primary := False\<rparr>, role_electrician]\<rparr>)"
  by code_simp

text \<open>
  Claim C1 fails when two saves overlap. User A has no role; one request saves PLUMBER
  as primary for A while another saves ELECTRICIAN as primary for A, and the \<open>UPDATE\<close>
  of each call (line 97) runs before the write of the other (line 98). Both calls
  return, and A has two primary roles.
\<close>

theorem C1_overlapping_saves_leave_two_primary:
  "overlapping_saves role_plumber role_electrician (empty_db\<lparr>users := [user_A]\<rparr>)
     = (Inr (empty_db\<lparr>users := [user_A], roles := [role_plumber]\<rparr>),
        Inr (empty_db\<lparr>users := [user_A], roles := [role_plumber, role_electrician]\<rparr>))
   \<and> primary_roles 1 (empty_db\<lparr>users := [user_A], roles := [role_plumber, role_electrician]\<rparr>)
     = [role_plumber, role_electrician]
   \<and> role_user role_plumber = 1 \<and> role_user role_electrician = 1
   \<and> role_is_primary role_plumber \<and> role_is_primary role_electrician"
proof -
  have "overlapping_saves role_plumber role_electrician (empty_db\<lparr>users := [user_A]\<rparr>)
     = (Inr (empty_db\<lparr>users := [user_A], roles := [role_plumber]\<rparr>),
        Inr (empty_db\<lparr>users := [user_A], roles := [role_plumber, role_electrician]\<rparr>))"
    by code_simp
  moreover have "primary_roles 1
      (empty_db\<lparr>users := [user_A], roles := [role_plumber, role_electrician]\<rparr>)
     = [role_plumber, role_electrician]"
    by code_simp
  moreover have "role_user role_plumber = 1" "role_user role_electrician = 1"
      "role_is_primary role_plumber" "role_is_primary role_electrician"
    by (simp_all add: role_plumber_def role_electrician_def)
  ultimately show ?thesis by blast
qed

subsection \<open>Proposals\<close>









subsection \<open>Slugs\<close>

lemma in_dropWhile: "c \<in> set xs \<Longrightarrow> \<not> P c \<Longrightarrow> c \<in> set (dropWhile P xs)"
  by (induction xs) auto

lemma in_strip: "c \<in> set xs \<Longrightarrow> \<not> P c \<Longrightarrow> c \<in> set (strip P xs)"
  by (simp add: strip_def in_dropWhile)

lemma set_strip: "set (strip P xs) \<subseteq> set xs"
proof -
  have "set (strip P xs) \<subseteq> set (dropWhile P xs)"
    unfolding strip_def using set_dropWhileD [of _ P "rev (dropWhile P xs)"] by auto
  then show ?thesis using set_dropWhileD [of _ P xs] by blast
qed

lemma in_collapse_separators:
  "c \<in> set xs \<Longrightarrow> \<not> is_separator c \<Longrightarrow> c \<in> set (collapse_separators xs)"
proof (induction xs rule: collapse_separators.induct)
  case 1
  then show ?case by simp
next
  case (2 d ds)
  show ?case
  proof (cases "is_separator d")
    case True
    with "2.prems" have "c \<in> set ds" by auto
    then have "c \<in> set (dropWhile is_separator ds)" using "2.prems"(2) by (rule in_dropWhile)
    with True "2.IH"(1) "2.prems"(2) show ?thesis by simp
  next
    case False
    with "2.IH"(2) "2.prems" show ?thesis by auto
  qed
qed

lemma set_collapse_separators:
  "c \<in> set (collapse_separators xs) \<Longrightarrow> c = hyphen \<or> (c \<in> set xs \<and> \<not> is_separator c)"
proof (induction xs rule: collapse_separators.induct)
  case 1
  then show ?case by simp
next
  case (2 d ds)
  show ?case
  proof (cases "is_separator d")
    case True
    with "2.prems" have "c = hyphen \<or> c \<in> set (collapse_separators (dropWhile is_separator ds))"
      by simp
    then show ?thesis
    proof
      assume "c = hyphen"
      then show ?thesis by simp
    next
      assume "c \<in> set (collapse_separators (dropWhile is_separator ds))"
      with "2.IH"(1) [OF True]
      have "c = hyphen \<or> (c \<in> set (dropWhile is_separator ds) \<and> \<not> is_separator c)" by simp
      then show ?thesis using set_dropWhileD [of c is_separator ds] by auto
    qed
  next
    case False
    with "2.prems" have "c = d \<or> c \<in> set (collapse_separators ds)" by simp
    with False "2.IH"(2) show ?thesis by auto
  qed
qed

lemma is_alnum_ascii: "is_alnum c \<Longrightarrow> is_ascii c"
  by (auto simp: is_alnum_def is_ascii_def)

lemma is_alnum_lower: "is_alnum (lower c) = is_alnum c"
  by (auto simp: is_alnum_def lower_def)

lemma is_alnum_not_separator: "is_alnum c \<Longrightarrow> \<not> is_separator c"
  by (auto simp: is_alnum_def is_separator_def is_space_def)

lemma is_alnum_not_stripped: "is_alnum c \<Longrightarrow> \<not> (c = hyphen \<or> c = underscore)"
  by (auto simp: is_alnum_def)

lemma in_to_ascii: "c \<in> set s \<Longrightarrow> is_ascii c \<Longrightarrow> c \<in> set (to_ascii table s)"
  by (auto simp: to_ascii_def)

text \<open>A text with an ASCII letter or digit has a slug that is not empty.\<close>

lemma slugify_nonempty:
  assumes "c \<in> set s" and "is_alnum c"
  shows "slugify table s \<noteq> []"
proof -
  let ?keep = "\<lambda>c. is_word c \<or> is_space c \<or> c = hyphen"
  from assms have "c \<in> set (to_ascii table s)"
    by (simp add: in_to_ascii is_alnum_ascii)
  then have "lower c \<in> set (map lower (to_ascii table s))" by simp
  moreover have al: "is_alnum (lower c)" using assms(2) by (simp add: is_alnum_lower)
  ultimately have "lower c \<in> set (filter ?keep (map lower (to_ascii table s)))"
    by (simp add: is_word_def)
  then have "lower c \<in> set (collapse_separators (filter ?keep (map lower (to_ascii table s))))"
    using is_alnum_not_separator [OF al] by (rule in_collapse_separators)
  then have "lower c \<in> set (slugify table s)"
    unfolding slugify_def using is_alnum_not_stripped [OF al] by (rule in_strip)
  then show ?thesis by auto
qed

text \<open>Every character of a slug is a digit, a lower-case letter, a hyphen or an underscore.\<close>

lemma slugify_url_safe:
  assumes "c \<in> set (slugify table s)"
  shows "url_safe c"
proof -
  let ?keep = "\<lambda>c. is_word c \<or> is_space c \<or> c = hyphen"
  from assms have "c \<in> set (collapse_separators (filter ?keep (map lower (to_ascii table s))))"
    unfolding slugify_def using set_strip by blast
  then have "c = hyphen \<or> (c \<in> set (filter ?keep (map lower (to_ascii table s)))
      \<and> \<not> is_separator c)"
    by (rule set_collapse_separators)
  then show ?thesis
  proof
    assume "c = hyphen"
    then show ?thesis by (simp add: url_safe_def)
  next
    assume a: "c \<in> set (filter ?keep (map lower (to_ascii table s))) \<and> \<not> is_separator c"
    then obtain c0 where c0: "c = lower c0" by auto
    from a have "is_word c" by (auto simp: is_separator_def)
    then show ?thesis unfolding c0
      by (auto simp: is_word_def is_alnum_def lower_def url_safe_def split: if_splits)
  qed
qed

text \<open>A slug neither begins nor ends with a hyphen or an underscore.\<close>

lemma strip_prefix:
  "dropWhile P xs = strip P xs @ rev (takeWhile P (rev (dropWhile P xs)))"
proof -
  let ?ys = "dropWhile P xs"
  have "rev (rev ?ys) = rev (takeWhile P (rev ?ys) @ dropWhile P (rev ?ys))"
    by (simp only: takeWhile_dropWhile_id)
  then show ?thesis by (simp only: rev_rev_ident rev_append strip_def)
qed

lemma strip_ends:
  assumes "strip P xs \<noteq> []"
  shows "\<not> P (hd (strip P xs)) \<and> \<not> P (last (strip P xs))"
proof -
  let ?ys = "dropWhile P xs"
  let ?zs = "dropWhile P (rev ?ys)"
  from assms have zs: "?zs \<noteq> []" by (simp add: strip_def)
  then have "\<not> P (hd ?zs)" by (rule hd_dropWhile)
  then have l: "\<not> P (last (strip P xs))"
    using zs by (simp add: strip_def last_rev)
  have ys: "?ys = strip P xs @ rev (takeWhile P (rev ?ys))" by (rule strip_prefix)
  with assms have ne: "?ys \<noteq> []" by (metis Nil_is_append_conv)
  from ys assms have "hd ?ys = hd (strip P xs)" by (metis hd_append2)
  moreover from ne have "\<not> P (hd ?ys)" by (rule hd_dropWhile)
  ultimately show ?thesis using l by simp
qed

lemma slugify_ends:
  assumes "slugify table s \<noteq> []"
  shows "hd (slugify table s) \<noteq> hyphen \<and> hd (slugify table s) \<noteq> underscore
    \<and> last (slugify table s) \<noteq> hyphen \<and> last (slugify table s) \<noteq> underscore"
  using assms strip_ends [of "\<lambda>c. c = hyphen \<or> c = underscore"
      "collapse_separators (filter (\<lambda>c. is_word c \<or> is_space c \<or> c = hyphen)
          (map lower (to_ascii table s)))"]
  unfolding slugify_def by blast

text \<open>No two hyphens of a slug are adjacent.\<close>

lemma no_double_hyphen_Cons:
  "no_double_hyphen (a # xs) \<longleftrightarrow>
     (xs = [] \<or> \<not> (a = hyphen \<and> hd xs = hyphen)) \<and> no_double_hyphen xs"
  by (cases xs) auto

lemma no_double_hyphen_append:
  "no_double_hyphen (xs @ ys) \<Longrightarrow> no_double_hyphen xs \<and> no_double_hyphen ys"
proof (induction xs)
  case Nil
  then show ?case by simp
next
  case (Cons a xs)
  then show ?case by (cases xs) (auto simp: no_double_hyphen_Cons)
qed

lemma no_double_hyphen_dropWhile:
  "no_double_hyphen xs \<Longrightarrow> no_double_hyphen (dropWhile P xs)"
  using no_double_hyphen_append [of "takeWhile P xs" "dropWhile P xs"] by simp

lemma no_double_hyphen_strip:
  assumes "no_double_hyphen xs"
  shows "no_double_hyphen (strip P xs)"
proof -
  have "no_double_hyphen (dropWhile P xs)" using assms by (rule no_double_hyphen_dropWhile)
  then have "no_double_hyphen (strip P xs @ rev (takeWhile P (rev (dropWhile P xs))))"
    using strip_prefix [of P xs] by simp
  then show ?thesis using no_double_hyphen_append by blast
qed

lemma collapse_separators_hd:
  "xs \<noteq> [] \<Longrightarrow> \<not> is_separator (hd xs) \<Longrightarrow> hd (collapse_separators xs) = hd xs"
  by (cases xs) auto

lemma no_double_hyphen_collapse: "no_double_hyphen (collapse_separators xs)"
proof (induction xs rule: collapse_separators.induct)
  case 1
  then show ?case by simp
next
  case (2 c cs)
  show ?case
  proof (cases "is_separator c")
    case True
    let ?ys = "dropWhile is_separator cs"
    have rest: "no_double_hyphen (collapse_separators ?ys)" using "2.IH"(1) [OF True] .
    have "collapse_separators ?ys = [] \<or> hd (collapse_separators ?ys) \<noteq> hyphen"
    proof (cases "?ys = []")
      case True
      then show ?thesis by (simp only: collapse_separators.simps simp_thms)
    next
      case False
      then have ns: "\<not> is_separator (hd ?ys)" by (rule hd_dropWhile)
      with False have "hd (collapse_separators ?ys) = hd ?ys" by (rule collapse_separators_hd)
      with ns show ?thesis by (auto simp: is_separator_def)
    qed
    with rest True show ?thesis by (auto simp: no_double_hyphen_Cons)
  next
    case False
    then have "c \<noteq> hyphen" by (auto simp: is_separator_def)
    with False "2.IH"(2) show ?thesis by (simp add: no_double_hyphen_Cons)
  qed
qed

lemma slugify_no_double_hyphen: "no_double_hyphen (slugify table s)"
  unfolding slugify_def by (intro no_double_hyphen_strip no_double_hyphen_collapse)

text \<open>
  The letters and digits of a slug are those of the ASCII form of the text, in lower
  case and in the same order.
\<close>

lemma filter_dropWhile_disjoint:
  "(\<And>x. P x \<Longrightarrow> \<not> Q x) \<Longrightarrow> filter Q (dropWhile P xs) = filter Q xs"
  by (induction xs) auto

lemma filter_strip_disjoint:
  assumes "\<And>x. P x \<Longrightarrow> \<not> Q x"
  shows "filter Q (strip P xs) = filter Q xs"
proof -
  have "filter Q (strip P xs) = rev (filter Q (dropWhile P (rev (dropWhile P xs))))"
    by (simp add: strip_def rev_filter)
  also have "\<dots> = rev (filter Q (rev (dropWhile P xs)))"
    using assms by (simp add: filter_dropWhile_disjoint)
  also have "\<dots> = filter Q (dropWhile P xs)" by (simp add: rev_filter)
  also have "\<dots> = filter Q xs" using assms by (rule filter_dropWhile_disjoint)
  finally show ?thesis .
qed

lemma filter_alnum_collapse:
  "filter is_alnum (collapse_separators xs) = filter is_alnum xs"
proof (induction xs rule: collapse_separators.induct)
  case 1
  then show ?case by simp
next
  case (2 c cs)
  show ?case
  proof (cases "is_separator c")
    case True
    then have nc: "\<not> is_alnum c" using is_alnum_not_separator by blast
    have nh: "\<not> is_alnum hyphen" by (simp add: is_alnum_def)
    have "filter is_alnum (dropWhile is_separator cs) = filter is_alnum cs"
      by (rule filter_dropWhile_disjoint) (use is_alnum_not_separator in blast)
    with True nc nh "2.IH"(1) show ?thesis by simp
  next
    case False
    with "2.IH"(2) show ?thesis by simp
  qed
qed

lemma slugify_alnum:
  "filter is_alnum (slugify table s) = map lower (filter is_alnum (to_ascii table s))"
proof -
  let ?keep = "\<lambda>c. is_word c \<or> is_space c \<or> c = hyphen"
  have "filter is_alnum (slugify table s)
      = filter is_alnum (collapse_separators (filter ?keep (map lower (to_ascii table s))))"
    unfolding slugify_def
    by (rule filter_strip_disjoint) (use is_alnum_not_stripped in blast)
  also have "\<dots> = filter is_alnum (filter ?keep (map lower (to_ascii table s)))"
    by (rule filter_alnum_collapse)
  also have "\<dots> = filter is_alnum (map lower (to_ascii table s))"
    by (simp add: is_word_def conj_commute cong: conj_cong)
  also have "\<dots> = map lower (filter is_alnum (to_ascii table s))"
    by (simp add: filter_map comp_def is_alnum_lower)
  finally show ?thesis .
qed

lemma hex_digit_alnum: "n < 16 \<Longrightarrow> is_alnum (hex_digit n)"
  by (auto simp: hex_digit_def is_alnum_def)

lemma nibble_less: "unat ((w :: uuid) AND 15) < 16"
proof -
  have "w AND 15 \<le> 15" by (rule word_and_le1)
  then have "unat (w AND 15) \<le> unat (15 :: uuid)" by (simp add: word_le_nat_alt)
  then show ?thesis by simp
qed

lemma uuid_hex_alnum: "c \<in> set (uuid_hex u) \<Longrightarrow> is_alnum c"
  by (auto simp: uuid_hex_def hex_digit_alnum nibble_less)

lemma length_uuid_hex: "length (uuid_hex u) = 32"
  by (simp add: uuid_hex_def)

lemma slugify_suffix_nonempty: "slugify table (title @ [hyphen] @ take 8 (uuid_hex rnd)) \<noteq> []"
proof -
  have "length (take 8 (uuid_hex rnd)) = 8" by (simp add: length_uuid_hex)
  then have "take 8 (uuid_hex rnd) \<noteq> []" by auto
  then obtain c where c: "c \<in> set (take 8 (uuid_hex rnd))" by (cases "take 8 (uuid_hex rnd)") auto
  then have "c \<in> set (uuid_hex rnd)" by (rule in_set_takeD)
  then have "is_alnum c" by (rule uuid_hex_alnum)
  moreover from c have "c \<in> set (title @ [hyphen] @ take 8 (uuid_hex rnd))" by simp
  ultimately show ?thesis by (rule slugify_nonempty [rotated])
qed

lemma super_save_ArtisanProfile_Inr:
  "super_save_ArtisanProfile pf p d = Inr d'
     \<Longrightarrow> artisan_profiles d' = upsert profile_id p (artisan_profiles d)"
  by (auto simp: super_save_ArtisanProfile_def split: if_splits)

lemma save_ArtisanProfile_generates:
  assumes "profile_slug p = []" and "save_ArtisanProfile pf p d = Inr d'"
  shows "\<exists>u. find (\<lambda>u. user_id u = profile_user p) (users d) = Some u
      \<and> artisan_profiles d' =
          upsert profile_id
            (p\<lparr>profile_slug :=
                 slugify (nfkd pf) (profile_business_name p @ [hyphen] @ user_username u)\<rparr>)
            (artisan_profiles d)"
proof (cases "find (\<lambda>u. user_id u = profile_user p) (users d)")
  case None
  with assms show ?thesis by (simp add: save_ArtisanProfile_def)
next
  case (Some u)
  with assms have "super_save_ArtisanProfile pf
      (p\<lparr>profile_slug :=
           slugify (nfkd pf) (profile_business_name p @ [hyphen] @ user_username u)\<rparr>) d = Inr d'"
    by (simp add: save_ArtisanProfile_def)
  then have "artisan_profiles d' =
      upsert profile_id
        (p\<lparr>profile_slug :=
             slugify (nfkd pf) (profile_business_name p @ [hyphen] @ user_username u)\<rparr>)
        (artisan_profiles d)"
    by (rule super_save_ArtisanProfile_Inr)
  with Some show ?thesis by simp
qed

text \<open>
  Claim C5. When an ArtisanProfile whose slug is empty is saved and the save returns,
  the row stored under its primary key is the profile with its slug set to
  \<open>slugify\<close> of the business name, a hyphen and the username of its user. That slug
  is URL-safe: whatever the text, every character of its slug is a digit, a lower-case
  letter, a hyphen or an underscore, no two hyphens are adjacent, the slug neither
  begins nor ends with a hyphen or an underscore, and its letters and digits are those
  of the ASCII form of the text, in lower case and in order. Saving the profile of
  business "Ace Plumbing", whose user has the username "ace1", with no slug, stores it
  with the slug "ace-plumbing-ace1"; the business "Cafe Muller" written with an acute
  accent and a diaeresis, of user "jo", gets the slug "cafe-muller-jo".
\<close>

theorem C5_profile_slug_generated:
  "profile_slug p = [] \<Longrightarrow> save_ArtisanProfile pf p d = Inr d' \<Longrightarrow>
     (\<exists>u. find (\<lambda>u. user_id u = profile_user p) (users d) = Some u
        \<and> p\<lparr>profile_slug :=
              slugify (nfkd pf) (profile_business_name p @ [hyphen] @ user_username u)\<rparr>
            \<in> set (artisan_profiles d')
        \<and> (\<forall>q\<in>set (artisan_profiles d'). profile_id q = profile_id p \<longrightarrow>
              profile_slug q
                = slugify (nfkd pf) (profile_business_name p @ [hyphen] @ user_username u)))
     \<and> (\<forall>s. (\<forall>c\<in>set (slugify (nfkd pf) s). url_safe c)
            \<and> no_double_hyphen (slugify (nfkd pf) s)
            \<and> (slugify (nfkd pf) s \<noteq> [] \<longrightarrow>
                  hd (slugify (nfkd pf) s) \<noteq> hyphen \<and> hd (slugify (nfkd pf) s) \<noteq> underscore
                  \<and> last (slugify (nfkd pf) s) \<noteq> hyphen
                  \<and> last (slugify (nfkd pf) s) \<noteq> underscore)
            \<and> filter is_alnum (slugify (nfkd pf) s)
                = map lower (filter is_alnum (to_ascii (nfkd pf) s)))
     \<and> save_ArtisanProfile scenario_platform (profile_ArtisanA\<lparr>profile_slug := []\<rparr>)
            (empty_db\<lparr>users := [user_A, user_B]\<rparr>)
          = Inr (empty_db\<lparr>users := [user_A, user_B], artisan_profiles := [profile_ArtisanA]\<rparr>)
     \<and> profile_business_name profile_ArtisanA = str_of ''Ace Plumbing''
     \<and> user_username user_B = str_of ''ace1''
     \<and> profile_slug profile_ArtisanA = str_of ''ace-plumbing-ace1''
     \<and> save_ArtisanProfile scenario_platform profile_cafe (empty_db\<lparr>users := [user_J]\<rparr>)
          = Inr (empty_db\<lparr>users := [user_J],
                   artisan_profiles := [profile_cafe\<lparr>profile_slug := str_of ''cafe-muller-jo''\<rparr>]\<rparr>)"
proof -
  assume empty: "profile_slug p = []" and saved: "save_ArtisanProfile pf p d = Inr d'"
  from empty saved obtain u where
    u: "find (\<lambda>u. user_id u = profile_user p) (users d) = Some u" and
    rows: "artisan_profiles d' =
      upsert profile_id
        (p\<lparr>profile_slug :=
             slugify (nfkd pf) (profile_business_name p @ [hyphen] @ user_username u)\<rparr>)
        (artisan_profiles d)"
    using save_ArtisanProfile_generates by blast
  let ?slug = "slugify (nfkd pf) (profile_business_name p @ [hyphen] @ user_username u)"
  let ?p = "p\<lparr>profile_slug := ?slug\<rparr>"
  have stored: "?p \<in> set (artisan_profiles d')"
    unfolding rows by (rule in_upsert)
  have only: "\<forall>q\<in>set (artisan_profiles d'). profile_id q = profile_id p \<longrightarrow>
      profile_slug q = ?slug"
  proof (intro ballI impI)
    fix q
    assume "q \<in> set (artisan_profiles d')" and "profile_id q = profile_id p"
    then have "q = ?p"
      unfolding rows using upsert_same_pk [of q profile_id ?p "artisan_profiles d"] by simp
    then show "profile_slug q = ?slug" by simp
  qed
  have generated: "\<exists>u. find (\<lambda>u. user_id u = profile_user p) (users d) = Some u
      \<and> p\<lparr>profile_slug :=
            slugify (nfkd pf) (profile_business_name p @ [hyphen] @ user_username u)\<rparr>
          \<in> set (artisan_profiles d')
      \<and> (\<forall>q\<in>set (artisan_profiles d'). profile_id q = profile_id p \<longrightarrow>
            profile_slug q
              = slugify (nfkd pf) (profile_business_name p @ [hyphen] @ user_username u))"
    using u stored only by blast
  have safe: "\<forall>s. (\<forall>c\<in>set (slugify (nfkd pf) s). url_safe c)
      \<and> no_double_hyphen (slugify (nfkd pf) s)
      \<and> (slugify (nfkd pf) s \<noteq> [] \<longrightarrow>
            hd (slugify (nfkd pf) s) \<noteq> hyphen \<and> hd (slugify (nfkd pf) s) \<noteq> underscore
            \<and> last (slugify (nfkd pf) s) \<noteq> hyphen
            \<and> last (slugify (nfkd pf) s) \<noteq> underscore)
      \<and> filter is_alnum (slugify (nfkd pf) s)
          = map lower (filter is_alnum (to_ascii (nfkd pf) s))"
    using slugify_url_safe [of _ "nfkd pf"] slugify_no_double_hyphen [of "nfkd pf"]
      slugify_ends [of "nfkd pf"] slugify_alnum [of "nfkd pf"]
    by blast
  have ace: "save_ArtisanProfile scenario_platform (profile_ArtisanA\<lparr>profile_slug := []\<rparr>)
        (empty_db\<lparr>users := [user_A, user_B]\<rparr>)
      = Inr (empty_db\<lparr>users := [user_A, user_B], artisan_profiles := [profile_ArtisanA]\<rparr>)"
    by code_simp
  have n1: "profile_business_name profile_ArtisanA = str_of ''Ace Plumbing''"
    by (simp add: profile_ArtisanA_def)
  have n2: "user_username user_B = str_of ''ace1''"
    by (simp add: user_B_def)
  have n3: "profile_slug profile_ArtisanA = str_of ''ace-plumbing-ace1''"
    by (simp add: profile_ArtisanA_def)
  have cafe: "save_ArtisanProfile scenario_platform profile_cafe (empty_db\<lparr>users := [user_J]\<rparr>)
      = Inr (empty_db\<lparr>users := [user_J],
               artisan_profiles := [profile_cafe\<lparr>profile_slug := str_of ''cafe-muller-jo''\<rparr>]\<rparr>)"
    by code_simp
  show ?thesis by (intro conjI generated safe ace n1 n2 n3 cafe)
qed

theorem C5_profile_slug_generated_witness:
  "profile_slug (profile_ArtisanA\<lparr>profile_slug := []\<rparr>) = []
   \<and> save_ArtisanProfile scenario_platform (profile_ArtisanA\<lparr>profile_slug := []\<rparr>)
          (empty_db\<lparr>users := [user_A, user_B]\<rparr>)
        = Inr (empty_db\<lparr>users := [user_A, user_B], artisan_profiles := [profile_ArtisanA]\<rparr>)
   \<and> (\<exists>u. find (\<lambda>u. user_id u = profile_user (profile_ArtisanA\<lparr>profile_slug := []\<rparr>))
              (users (empty_db\<lparr>users := [user_A, user_B]\<rparr>)) = Some u
        \<and> (profile_ArtisanA\<lparr>profile_slug := []\<rparr>)\<lparr>profile_slug :=
              slugify (nfkd scenario_platform)
                (profile_business_name (profile_ArtisanA\<lparr>profile_slug := []\<rparr>)
                 @ [hyphen] @ user_username u)\<rparr>
            \<in> set (artisan_profiles
                (empty_db\<lparr>users := [user_A, user_B], artisan_profiles := [profile_ArtisanA]\<rparr>)))
   \<and> list_all url_safe (str_of ''ace-plumbing-ace1'')"
proof -
  have h1: "profile_slug (profile_ArtisanA\<lparr>profile_slug := []\<rparr>) = []"
    by simp
  have h2: "save_ArtisanProfile scenario_platform (profile_ArtisanA\<lparr>profile_slug := []\<rparr>)
        (empty_db\<lparr>users := [user_A, user_B]\<rparr>)
      = Inr (empty_db\<lparr>users := [user_A, user_B], artisan_profiles := [profile_ArtisanA]\<rparr>)"
    by code_simp
  have h3: "list_all url_safe (str_of ''ace-plumbing-ace1'')"
    by code_simp
  from C5_profile_slug_generated [OF h1 h2] h1 h2 h3 show ?thesis by blast
qed

lemma no_UniqueViolation_ArtisanWork:
  "save_ArtisanWork pf rnd w d = Inl (e, d') \<Longrightarrow> e \<noteq> UniqueViolation"
  by (auto simp: save_ArtisanWork_def super_save_ArtisanWork_def split: if_splits)

lemma no_UniqueViolation_UserFeed:
  "save_UserFeed pf rnd f d = Inl (e, d') \<Longrightarrow> e \<noteq> UniqueViolation"
  by (auto simp: save_UserFeed_def super_save_UserFeed_def split: if_splits)

lemma no_UniqueViolation_ArtisanFeed:
  "save_ArtisanFeed pf rnd f d = Inl (e, d') \<Longrightarrow> e \<noteq> UniqueViolation"
  by (auto simp: save_ArtisanFeed_def super_save_ArtisanFeed_def split: if_splits)

lemma super_save_ArtisanProfile_duplicate_slug:
  assumes "\<not> refuses_ArtisanProfile pf p"
    and "\<exists>q\<in>set (artisan_profiles d). profile_id q \<noteq> profile_id p \<and> profile_slug q = profile_slug p"
  shows "super_save_ArtisanProfile pf p d = Inl (UniqueViolation, d)"
  using assms by (auto simp: super_save_ArtisanProfile_def unique_conflict_iff)

lemma save_ArtisanWork_given_slug_stored:
  assumes "work_slug w \<noteq> []" and "\<not> refuses_ArtisanWork pf w"
    and "fk_ok profile_id (work_artisan w) (artisan_profiles d)"
  shows "save_ArtisanWork pf rnd w d
    = Inr (d\<lparr>artisan_works := upsert work_id w (artisan_works d)\<rparr>)"
  using assms by (simp add: save_ArtisanWork_def super_save_ArtisanWork_def)

lemma save_UserFeed_given_slug_stored:
  assumes "ufeed_slug f \<noteq> []" and "\<not> refuses_UserFeed pf f"
    and "fk_ok user_id (ufeed_user f) (users d)"
  shows "save_UserFeed pf rnd f d = Inr (d\<lparr>user_feeds := upsert ufeed_id f (user_feeds d)\<rparr>)"
  using assms by (simp add: save_UserFeed_def super_save_UserFeed_def)

lemma save_ArtisanFeed_given_slug_stored:
  assumes "afeed_slug f \<noteq> []" and "\<not> refuses_ArtisanFeed pf f"
    and "fk_ok profile_id (afeed_artisan f) (artisan_profiles d)"
  shows "save_ArtisanFeed pf rnd f d
    = Inr (d\<lparr>artisan_feeds := upsert afeed_id f (artisan_feeds d)\<rparr>)"
  using assms by (simp add: save_ArtisanFeed_def super_save_ArtisanFeed_def)

text \<open>
  Claim C9, as the source has it. Only \<open>ArtisanProfile.slug\<close> is \<open>unique=True\<close>.
  Saving an ArtisanProfile that is not refused for the value of a column and whose slug,
  given or generated, is the slug of another stored profile raises \<open>UniqueViolation\<close>
  and leaves the database as it was. A save of an ArtisanWork, a UserFeed or an
  ArtisanFeed never raises \<open>UniqueViolation\<close>: when such a record comes with a slug, is
  not refused for the value of a column and references a stored row, the save returns
  and the record is stored, whatever the slugs of the stored rows.
\<close>

theorem C9_only_profile_slug_unique:
  "(profile_slug p \<noteq> [] \<and> \<not> refuses_ArtisanProfile pf p
        \<and> (\<exists>q\<in>set (artisan_profiles d). profile_id q \<noteq> profile_id p
              \<and> profile_slug q = profile_slug p)
        \<longrightarrow> save_ArtisanProfile pf p d = Inl (UniqueViolation, d))
     \<and> (\<forall>u. profile_slug p = []
          \<and> find (\<lambda>u. user_id u = profile_user p) (users d) = Some u
          \<and> \<not> refuses_ArtisanProfile pf
                (p\<lparr>profile_slug :=
                     slugify (nfkd pf) (profile_business_name p @ [hyphen] @ user_username u)\<rparr>)
          \<and> (\<exists>q\<in>set (artisan_profiles d). profile_id q \<noteq> profile_id p
                \<and> profile_slug q
                    = slugify (nfkd pf) (profile_business_name p @ [hyphen] @ user_username u))
          \<longrightarrow> save_ArtisanProfile pf p d = Inl (UniqueViolation, d))
     \<and> (\<forall>rnd w e d'. save_ArtisanWork pf rnd w d = Inl (e, d') \<longrightarrow> e \<noteq> UniqueViolation)
     \<and> (\<forall>rnd f e d'. save_UserFeed pf rnd f d = Inl (e, d') \<longrightarrow> e \<noteq> UniqueViolation)
     \<and> (\<forall>rnd f e d'. save_ArtisanFeed pf rnd f d = Inl (e, d') \<longrightarrow> e \<noteq> UniqueViolation)
     \<and> (\<forall>rnd w. work_slug w \<noteq> [] \<and> \<not> refuses_ArtisanWork pf w
          \<and> fk_ok profile_id (work_artisan w) (artisan_profiles d)
          \<longrightarrow> save_ArtisanWork pf rnd w d
                = Inr (d\<lparr>artisan_works := upsert work_id w (artisan_works d)\<rparr>))
     \<and> (\<forall>rnd f. ufeed_slug f \<noteq> [] \<and> \<not> refuses_UserFeed pf f
          \<and> fk_ok user_id (ufeed_user f) (users d)
          \<longrightarrow> save_UserFeed pf rnd f d
                = Inr (d\<lparr>user_feeds := upsert ufeed_id f (user_feeds d)\<rparr>))
     \<and> (\<forall>rnd f. afeed_slug f \<noteq> [] \<and> \<not> refuses_ArtisanFeed pf f
          \<and> fk_ok profile_id (afeed_artisan f) (artisan_profiles d)
          \<longrightarrow> save_ArtisanFeed pf rnd f d
                = Inr (d\<lparr>artisan_feeds := upsert afeed_id f (artisan_feeds d)\<rparr>))"
proof -
  have given: "profile_slug p \<noteq> [] \<and> \<not> refuses_ArtisanProfile pf p
      \<and> (\<exists>q\<in>set (artisan_profiles d). profile_id q \<noteq> profile_id p
            \<and> profile_slug q = profile_slug p)
      \<longrightarrow> save_ArtisanProfile pf p d = Inl (UniqueViolation, d)"
    using super_save_ArtisanProfile_duplicate_slug [of pf p d]
    by (auto simp: save_ArtisanProfile_def)
  have generated: "\<forall>u. profile_slug p = []
      \<and> find (\<lambda>u. user_id u = profile_user p) (users d) = Some u
      \<and> \<not> refuses_ArtisanProfile pf
            (p\<lparr>profile_slug :=
                 slugify (nfkd pf) (profile_business_name p @ [hyphen] @ user_username u)\<rparr>)
      \<and> (\<exists>q\<in>set (artisan_profiles d). profile_id q \<noteq> profile_id p
            \<and> profile_slug q
                = slugify (nfkd pf) (profile_business_name p @ [hyphen] @ user_username u))
      \<longrightarrow> save_ArtisanProfile pf p d = Inl (UniqueViolation, d)"
  proof (intro allI impI)
    fix u :: User
    let ?p = "p\<lparr>profile_slug :=
      slugify (nfkd pf) (profile_business_name p @ [hyphen] @ user_username u)\<rparr>"
    assume a: "profile_slug p = []
      \<and> find (\<lambda>u. user_id u = profile_user p) (users d) = Some u
      \<and> \<not> refuses_ArtisanProfile pf ?p
      \<and> (\<exists>q\<in>set (artisan_profiles d). profile_id q \<noteq> profile_id p
            \<and> profile_slug q
                = slugify (nfkd pf) (profile_business_name p @ [hyphen] @ user_username u))"
    then have "\<exists>q\<in>set (artisan_profiles d). profile_id q \<noteq> profile_id ?p
        \<and> profile_slug q = profile_slug ?p"
      by simp
    moreover from a have "\<not> refuses_ArtisanProfile pf ?p" by blast
    ultimately have "super_save_ArtisanProfile pf ?p d = Inl (UniqueViolation, d)"
      using super_save_ArtisanProfile_duplicate_slug [of pf ?p d] by blast
    with a show "save_ArtisanProfile pf p d = Inl (UniqueViolation, d)"
      by (simp add: save_ArtisanProfile_def)
  qed
  have never_work: "\<forall>rnd w e d'. save_ArtisanWork pf rnd w d = Inl (e, d')
      \<longrightarrow> e \<noteq> UniqueViolation"
    using no_UniqueViolation_ArtisanWork by blast
  have never_ufeed: "\<forall>rnd f e d'. save_UserFeed pf rnd f d = Inl (e, d')
      \<longrightarrow> e \<noteq> UniqueViolation"
    using no_UniqueViolation_UserFeed by blast
  have never_afeed: "\<forall>rnd f e d'. save_ArtisanFeed pf rnd f d = Inl (e, d')
      \<longrightarrow> e \<noteq> UniqueViolation"
    using no_UniqueViolation_ArtisanFeed by blast
  have stored_work: "\<forall>rnd w. work_slug w \<noteq> [] \<and> \<not> refuses_ArtisanWork pf w
      \<and> fk_ok profile_id (work_artisan w) (artisan_profiles d)
      \<longrightarrow> save_ArtisanWork pf rnd w d
            = Inr (d\<lparr>artisan_works := upsert work_id w (artisan_works d)\<rparr>)"
    using save_ArtisanWork_given_slug_stored by blast
  have stored_ufeed: "\<forall>rnd f. ufeed_slug f \<noteq> [] \<and> \<not> refuses_UserFeed pf f
      \<and> fk_ok user_id (ufeed_user f) (users d)
      \<longrightarrow> save_UserFeed pf rnd f d
            = Inr (d\<lparr>user_feeds := upsert ufeed_id f (user_feeds d)\<rparr>)"
    using save_UserFeed_given_slug_stored by blast
  have stored_afeed: "\<forall>rnd f. afeed_slug f \<noteq> [] \<and> \<not> refuses_ArtisanFeed pf f
      \<and> fk_ok profile_id (afeed_artisan f) (artisan_profiles d)
      \<longrightarrow> save_ArtisanFeed pf rnd f d
            = Inr (d\<lparr>artisan_feeds := upsert afeed_id f (artisan_feeds d)\<rparr>)"
    using save_ArtisanFeed_given_slug_stored by blast
  show ?thesis
    by (intro conjI given generated never_work never_ufeed never_afeed
        stored_work stored_ufeed stored_afeed)
qed

theorem C9_only_profile_slug_unique_witness:
  "profile_slug (profile_ArtisanA\<lparr>profile_id := 23\<rparr>) \<noteq> []
   \<and> refuses_ArtisanProfile scenario_platform (profile_ArtisanA\<lparr>profile_id := 23\<rparr>) = False
   \<and> (\<exists>q\<in>set (artisan_profiles marketplace_db).
         profile_id q \<noteq> profile_id (profile_ArtisanA\<lparr>profile_id := 23\<rparr>)
         \<and> profile_slug q = profile_slug (profile_ArtisanA\<lparr>profile_id := 23\<rparr>))
   \<and> save_ArtisanProfile scenario_platform (profile_ArtisanA\<lparr>profile_id := 23\<rparr>) marketplace_db
        = Inl (UniqueViolation, marketplace_db)
   \<and> work_slug work_kitchen \<noteq> []
   \<and> refuses_ArtisanWork scenario_platform work_kitchen = False
   \<and> fk_ok profile_id (work_artisan work_kitchen) (artisan_profiles marketplace_db)
   \<and> save_ArtisanWork scenario_platform 0 work_kitchen marketplace_db
        = Inr (marketplace_db\<lparr>artisan_works :=
                 upsert work_id work_kitchen (artisan_works marketplace_db)\<rparr>)"
proof -
  have h1: "profile_slug (profile_ArtisanA\<lparr>profile_id := 23\<rparr>) \<noteq> []"
    by code_simp
  have h2: "refuses_ArtisanProfile scenario_platform (profile_ArtisanA\<lparr>profile_id := 23\<rparr>)
      = False"
    by code_simp
  have h3: "\<exists>q\<in>set (artisan_profiles marketplace_db).
      profile_id q \<noteq> profile_id (profile_ArtisanA\<lparr>profile_id := 23\<rparr>)
      \<and> profile_slug q = profile_slug (profile_ArtisanA\<lparr>profile_id := 23\<rparr>)"
    by (simp add: marketplace_db_def profile_ArtisanA_def)
  have h4: "work_slug work_kitchen \<noteq> []"
    by code_simp
  have h5: "refuses_ArtisanWork scenario_platform work_kitchen = False"
    by code_simp
  have h6: "fk_ok profile_id (work_artisan work_kitchen) (artisan_profiles marketplace_db)"
    by code_simp
  note c9 = C9_only_profile_slug_unique
    [of "profile_ArtisanA\<lparr>profile_id := 23\<rparr>" scenario_platform marketplace_db]
  from c9 h1 h2 h3
  have r1: "save_ArtisanProfile scenario_platform (profile_ArtisanA\<lparr>profile_id := 23\<rparr>)
      marketplace_db = Inl (UniqueViolation, marketplace_db)"
    by blast
  from c9 h4 h5 h6
  have r2: "save_ArtisanWork scenario_platform 0 work_kitchen marketplace_db
      = Inr (marketplace_db\<lparr>artisan_works :=
               upsert work_id work_kitchen (artisan_works marketplace_db)\<rparr>)"
    by blast
  show ?thesis by (intro conjI h1 h2 h3 r1 h4 h5 h6 r2)
qed

text \<open>
  Claim C9 as the specification states it fails for a UserFeed, an ArtisanWork and an
  ArtisanFeed: a second job request, a second portfolio work and a second promotion are
  each written with the slug of a stored one, each save returns, and both rows are
  stored.
\<close>

theorem C9_duplicate_slug_stored:
  "save_UserFeed scenario_platform 0 feed_G marketplace_db
     = Inr (marketplace_db\<lparr>user_feeds := [feed_F, feed_G]\<rparr>)
   \<and> ufeed_slug feed_G = ufeed_slug feed_F \<and> ufeed_id feed_G \<noteq> ufeed_id feed_F
   \<and> save_ArtisanWork scenario_platform 0 work_kitchen
       (marketplace_db\<lparr>artisan_works := [work_bath]\<rparr>)
     = Inr (marketplace_db\<lparr>artisan_works := [work_bath, work_kitchen]\<rparr>)
   \<and> work_slug work_kitchen = work_slug work_bath \<and> work_id work_kitchen \<noteq> work_id work_bath
   \<and> save_ArtisanFeed scenario_platform 0 afeed_spring
       (marketplace_db\<lparr>artisan_feeds := [afeed_promo]\<rparr>)
     = Inr (marketplace_db\<lparr>artisan_feeds := [afeed_promo, afeed_spring]\<rparr>)
   \<and> afeed_slug afeed_spring = afeed_slug afeed_promo
   \<and> afeed_id afeed_spring \<noteq> afeed_id afeed_promo"
proof -
  have "save_UserFeed scenario_platform 0 feed_G marketplace_db
      = Inr (marketplace_db\<lparr>user_feeds := [feed_F, feed_G]\<rparr>)"
    by code_simp
  moreover have "ufeed_slug feed_G = ufeed_slug feed_F \<and> ufeed_id feed_G \<noteq> ufeed_id feed_F"
    by (simp add: feed_F_def feed_G_def)
  moreover have "save_ArtisanWork scenario_platform 0 work_kitchen
       (marketplace_db\<lparr>artisan_works := [work_bath]\<rparr>)
     = Inr (marketplace_db\<lparr>artisan_works := [work_bath, work_kitchen]\<rparr>)"
    by code_simp
  moreover have "work_slug work_kitchen = work_slug work_bath
      \<and> work_id work_kitchen \<noteq> work_id work_bath"
    by (simp add: work_kitchen_def work_bath_def)
  moreover have "save_ArtisanFeed scenario_platform 0 afeed_spring
       (marketplace_db\<lparr>artisan_feeds := [afeed_promo]\<rparr>)
     = Inr (marketplace_db\<lparr>artisan_feeds := [afeed_promo, afeed_spring]\<rparr>)"
    by code_simp
  moreover have "afeed_slug afeed_spring = afeed_slug afeed_promo
      \<and> afeed_id afeed_spring \<noteq> afeed_id afeed_promo"
    by (simp add: afeed_spring_def afeed_promo_def)
  ultimately show ?thesis by blast
qed

lemma save_ArtisanProfile_keeps_slug:
  "profile_slug p \<noteq> [] \<Longrightarrow> save_ArtisanProfile pf p d = super_save_ArtisanProfile pf p d"
  by (simp add: save_ArtisanProfile_def)

lemma save_ArtisanWork_keeps_slug:
  "work_slug w \<noteq> [] \<Longrightarrow> save_ArtisanWork pf rnd w d = super_save_ArtisanWork pf w d"
  by (simp add: save_ArtisanWork_def)

lemma save_UserFeed_keeps_slug:
  "ufeed_slug f \<noteq> [] \<Longrightarrow> save_UserFeed pf rnd f d = super_save_UserFeed pf f d"
  by (simp add: save_UserFeed_def)

lemma save_ArtisanFeed_keeps_slug:
  "afeed_slug f \<noteq> [] \<Longrightarrow> save_ArtisanFeed pf rnd f d = super_save_ArtisanFeed pf f d"
  by (simp add: save_ArtisanFeed_def)

lemma save_ArtisanWork_slug_nonempty:
  assumes "save_ArtisanWork pf rnd w d = Inr d'" and "q \<in> set (artisan_works d')"
    and "work_id q = work_id w"
  shows "work_slug q \<noteq> []"
proof -
  let ?w = "if work_slug w = []
    then w\<lparr>work_slug := slugify (nfkd pf) (work_title w @ [hyphen] @ take 8 (uuid_hex rnd))\<rparr>
    else w"
  have ne: "work_slug ?w \<noteq> []"
    using slugify_suffix_nonempty [of "nfkd pf" "work_title w" rnd] by simp
  from assms(1) have "artisan_works d' = upsert work_id ?w (artisan_works d)"
    by (auto simp: save_ArtisanWork_def super_save_ArtisanWork_def split: if_splits)
  with assms(2,3) have "q = ?w" using upsert_same_pk [of q work_id ?w "artisan_works d"] by simp
  with ne show ?thesis by simp
qed

lemma save_UserFeed_slug_nonempty:
  assumes "save_UserFeed pf rnd f d = Inr d'" and "q \<in> set (user_feeds d')"
    and "ufeed_id q = ufeed_id f"
  shows "ufeed_slug q \<noteq> []"
proof -
  let ?f = "if ufeed_slug f = []
    then f\<lparr>ufeed_slug := slugify (nfkd pf) (ufeed_title f @ [hyphen] @ take 8 (uuid_hex rnd))\<rparr>
    else f"
  have ne: "ufeed_slug ?f \<noteq> []"
    using slugify_suffix_nonempty [of "nfkd pf" "ufeed_title f" rnd] by simp
  from assms(1) have "user_feeds d' = upsert ufeed_id ?f (user_feeds d)"
    by (auto simp: save_UserFeed_def super_save_UserFeed_def split: if_splits)
  with assms(2,3) have "q = ?f" using upsert_same_pk [of q ufeed_id ?f "user_feeds d"] by simp
  with ne show ?thesis by simp
qed

lemma save_ArtisanFeed_slug_nonempty:
  assumes "save_ArtisanFeed pf rnd f d = Inr d'" and "q \<in> set (artisan_feeds d')"
    and "afeed_id q = afeed_id f"
  shows "afeed_slug q \<noteq> []"
proof -
  let ?f = "if afeed_slug f = []
    then f\<lparr>afeed_slug := slugify (nfkd pf) (afeed_title f @ [hyphen] @ take 8 (uuid_hex rnd))\<rparr>
    else f"
  have ne: "afeed_slug ?f \<noteq> []"
    using slugify_suffix_nonempty [of "nfkd pf" "afeed_title f" rnd] by simp
  from assms(1) have "artisan_feeds d' = upsert afeed_id ?f (artisan_feeds d)"
    by (auto simp: save_ArtisanFeed_def super_save_ArtisanFeed_def split: if_splits)
  with assms(2,3) have "q = ?f" using upsert_same_pk [of q afeed_id ?f "artisan_feeds d"] by simp
  with ne show ?thesis by simp
qed

text \<open>
  On a text of ASCII characters the table of \<open>unicodedata\<close> plays no part, so the
  business "***" of the user "_" is stored with an empty slug on every platform that
  does not refuse the row.
\<close>

lemma to_ascii_of_ascii: "list_all is_ascii s \<Longrightarrow> to_ascii table s = s"
  by (induction s) (simp_all add: to_ascii_def)

lemma slugify_of_ascii:
  "list_all is_ascii s \<Longrightarrow> slugify table s = slugify table' s"
  by (simp add: slugify_def to_ascii_of_ascii)

lemma slug_of_stars_empty:
  "slugify table (profile_business_name profile_stars @ [hyphen] @ user_username user_C) = []"
proof -
  have a: "list_all is_ascii
      (profile_business_name profile_stars @ [hyphen] @ user_username user_C)"
    by code_simp
  have "slugify scenario_nfkd
      (profile_business_name profile_stars @ [hyphen] @ user_username user_C) = []"
    by code_simp
  with slugify_of_ascii [OF a, of table scenario_nfkd] show ?thesis by simp
qed

lemma save_profile_stars_on_any_platform:
  assumes "\<not> refuses_ArtisanProfile pf profile_stars"
  shows "save_ArtisanProfile pf profile_stars (empty_db\<lparr>users := [user_C]\<rparr>)
    = Inr (empty_db\<lparr>users := [user_C], artisan_profiles := [profile_stars]\<rparr>)"
proof -
  have e: "profile_slug profile_stars = []"
    by (simp add: profile_stars_def)
  have u: "find (\<lambda>u. user_id u = profile_user profile_stars)
      (users (empty_db\<lparr>users := [user_C]\<rparr>)) = Some user_C"
    by code_simp
  have same: "profile_stars\<lparr>profile_slug := []\<rparr> = profile_stars"
    by (simp add: profile_stars_def)
  have "save_ArtisanProfile pf profile_stars (empty_db\<lparr>users := [user_C]\<rparr>)
      = super_save_ArtisanProfile pf
          (profile_stars\<lparr>profile_slug := slugify (nfkd pf)
             (profile_business_name profile_stars @ [hyphen] @ user_username user_C)\<rparr>)
          (empty_db\<lparr>users := [user_C]\<rparr>)"
    unfolding save_ArtisanProfile_def by (simp only: e u if_True option.case simp_thms)
  also have "\<dots>
      = super_save_ArtisanProfile pf profile_stars (empty_db\<lparr>users := [user_C]\<rparr>)"
    by (simp only: slug_of_stars_empty same)
  also have "\<dots> = Inr (empty_db\<lparr>users := [user_C], artisan_profiles := [profile_stars]\<rparr>)"
  proof -
    have c1: "unique_conflict profile_id profile_slug profile_stars
        (artisan_profiles (empty_db\<lparr>users := [user_C]\<rparr>)) = False"
      by (simp add: unique_conflict_def empty_db_def)
    have c2: "unique_conflict profile_id profile_user profile_stars
        (artisan_profiles (empty_db\<lparr>users := [user_C]\<rparr>)) = False"
      by (simp add: unique_conflict_def empty_db_def)
    have c3: "fk_ok user_id (profile_user profile_stars) (users (empty_db\<lparr>users := [user_C]\<rparr>))"
      by code_simp
    have c4: "upsert profile_id profile_stars
        (artisan_profiles (empty_db\<lparr>users := [user_C]\<rparr>)) = [profile_stars]"
      by (simp add: upsert_def empty_db_def)
    show ?thesis
      unfolding super_save_ArtisanProfile_def using assms c1 c2 c3 c4 by simp
  qed
  finally show ?thesis .
qed

text \<open>
  Claim C6 fails for ArtisanProfile. A profile whose business name and username hold
  no ASCII letter or digit is created without a slug, the save returns, and the row is
  stored with the empty slug: once for the business "***" of the user "_", once for a
  business and a user with Cyrillic names. (The lemmas above are the part of the
  claim that holds: a slug that is not empty is written as it is, and an ArtisanWork,
  a UserFeed or an ArtisanFeed is never stored with an empty slug.)
\<close>

theorem C6_profile_slug_empty_after_creation:
  "save_ArtisanProfile scenario_platform profile_stars (empty_db\<lparr>users := [user_C]\<rparr>)
     = Inr (empty_db\<lparr>users := [user_C], artisan_profiles := [profile_stars]\<rparr>)
   \<and> profile_slug profile_stars = []
   \<and> save_ArtisanProfile scenario_platform profile_cyrillic (empty_db\<lparr>users := [user_D]\<rparr>)
     = Inr (empty_db\<lparr>users := [user_D], artisan_profiles := [profile_cyrillic]\<rparr>)
   \<and> profile_slug profile_cyrillic = []"
proof -
  have "save_ArtisanProfile scenario_platform profile_stars (empty_db\<lparr>users := [user_C]\<rparr>)
      = Inr (empty_db\<lparr>users := [user_C], artisan_profiles := [profile_stars]\<rparr>)"
    by code_simp
  moreover have "save_ArtisanProfile scenario_platform profile_cyrillic
        (empty_db\<lparr>users := [user_D]\<rparr>)
      = Inr (empty_db\<lparr>users := [user_D], artisan_profiles := [profile_cyrillic]\<rparr>)"
    by code_simp
  moreover have "profile_slug profile_stars = []" "profile_slug profile_cyrillic = []"
    by (simp_all add: profile_stars_def profile_cyrillic_def)
  ultimately show ?thesis by blast
qed

subsection \<open>Validated ranges\<close>

lemma clean_fields_ArtisanProfile_accepts:
  "clean_fields_ArtisanProfile pf p = Inr () \<Longrightarrow>
     0 \<le> profile_years_of_experience p
     \<and> 0 \<le> profile_average_rating p \<and> profile_average_rating p \<le> 500"
  by (auto simp: clean_fields_ArtisanProfile_def run_validators_def MinValueValidator_def
      MaxValueValidator_def split: if_splits)

lemma clean_fields_ArtisanWork_accepts:
  "clean_fields_ArtisanWork pf w = Inr () \<Longrightarrow> in_range_opt 1 5 (work_client_rating w)"
  by (auto simp: clean_fields_ArtisanWork_def run_validators_blank_def run_validators_def
      MinValueValidator_def MaxValueValidator_def in_range_opt_def
      split: option.splits if_splits)

lemma clean_fields_ArtisanFeed_accepts:
  "clean_fields_ArtisanFeed pf f = Inr () \<Longrightarrow> in_range_opt 0 100 (afeed_discount_percentage f)"
  by (auto simp: clean_fields_ArtisanFeed_def run_validators_blank_def run_validators_def
      MinValueValidator_def MaxValueValidator_def in_range_opt_def
      split: option.splits if_splits)

lemma clean_fields_ArtisanProfile_raises:
  "clean_fields_ArtisanProfile pf p \<noteq> Inr ()
     \<Longrightarrow> clean_fields_ArtisanProfile pf p = Inl ValidationError"
  by (simp add: clean_fields_ArtisanProfile_def split: if_splits)

lemma clean_fields_ArtisanWork_raises:
  "clean_fields_ArtisanWork pf w \<noteq> Inr () \<Longrightarrow> clean_fields_ArtisanWork pf w = Inl ValidationError"
  by (simp add: clean_fields_ArtisanWork_def split: if_splits)

lemma clean_fields_ArtisanFeed_raises:
  "clean_fields_ArtisanFeed pf f \<noteq> Inr () \<Longrightarrow> clean_fields_ArtisanFeed pf f = Inl ValidationError"
  by (simp add: clean_fields_ArtisanFeed_def split: if_splits)

text \<open>
  Where no other check of \<open>clean_fields\<close> fails, validation accepts exactly the
  values inside the declared ranges.
\<close>

lemma clean_fields_ArtisanProfile_iff:
  "\<not> also_invalid_ArtisanProfile pf p \<Longrightarrow>
     clean_fields_ArtisanProfile pf p = Inr () \<longleftrightarrow>
       0 \<le> profile_years_of_experience p
       \<and> 0 \<le> profile_average_rating p \<and> profile_average_rating p \<le> 500"
  by (auto simp: clean_fields_ArtisanProfile_def run_validators_def MinValueValidator_def
      MaxValueValidator_def)

lemma clean_fields_ArtisanWork_iff:
  "\<not> also_invalid_ArtisanWork pf w \<Longrightarrow>
     clean_fields_ArtisanWork pf w = Inr () \<longleftrightarrow> in_range_opt 1 5 (work_client_rating w)"
  by (auto simp: clean_fields_ArtisanWork_def run_validators_blank_def run_validators_def
      MinValueValidator_def MaxValueValidator_def in_range_opt_def split: option.splits)

lemma clean_fields_ArtisanFeed_iff:
  "\<not> also_invalid_ArtisanFeed pf f \<Longrightarrow>
     clean_fields_ArtisanFeed pf f = Inr () \<longleftrightarrow>
       in_range_opt 0 100 (afeed_discount_percentage f)"
  by (auto simp: clean_fields_ArtisanFeed_def run_validators_blank_def run_validators_def
      MinValueValidator_def MaxValueValidator_def in_range_opt_def split: option.splits)

lemma state_of_super_save_ArtisanProfile:
  "state_of (super_save_ArtisanProfile pf p d) = d
   \<or> state_of (super_save_ArtisanProfile pf p d)
       = d\<lparr>artisan_profiles := upsert profile_id p (artisan_profiles d)\<rparr>"
  by (simp add: super_save_ArtisanProfile_def state_of_def)

lemma state_of_save_ArtisanProfile:
  "state_of (save_ArtisanProfile pf p d) = d
   \<or> (\<exists>s. state_of (save_ArtisanProfile pf p d)
         = d\<lparr>artisan_profiles := upsert profile_id (p\<lparr>profile_slug := s\<rparr>) (artisan_profiles d)\<rparr>)"
proof (cases "profile_slug p = []")
  case True
  show ?thesis
  proof (cases "find (\<lambda>u. user_id u = profile_user p) (users d)")
    case None
    with True show ?thesis by (simp add: save_ArtisanProfile_def state_of_def)
  next
    case (Some u)
    with True state_of_super_save_ArtisanProfile
      [of pf "p\<lparr>profile_slug :=
         slugify (nfkd pf) (profile_business_name p @ [hyphen] @ user_username u)\<rparr>" d]
    show ?thesis by (auto simp: save_ArtisanProfile_def)
  qed
next
  case False
  then have same: "save_ArtisanProfile pf p d = super_save_ArtisanProfile pf p d"
    by (simp add: save_ArtisanProfile_def)
  from state_of_super_save_ArtisanProfile [of pf p d] show ?thesis
  proof
    assume "state_of (super_save_ArtisanProfile pf p d) = d"
    with same show ?thesis by simp
  next
    assume "state_of (super_save_ArtisanProfile pf p d)
      = d\<lparr>artisan_profiles := upsert profile_id p (artisan_profiles d)\<rparr>"
    with same have "state_of (save_ArtisanProfile pf p d)
      = d\<lparr>artisan_profiles :=
            upsert profile_id (p\<lparr>profile_slug := profile_slug p\<rparr>) (artisan_profiles d)\<rparr>"
      by simp
    then show ?thesis by blast
  qed
qed

lemma state_of_super_save_ArtisanWork:
  "state_of (super_save_ArtisanWork pf w d) = d
   \<or> state_of (super_save_ArtisanWork pf w d)
       = d\<lparr>artisan_works := upsert work_id w (artisan_works d)\<rparr>"
  by (simp add: super_save_ArtisanWork_def state_of_def)

lemma state_of_save_ArtisanWork:
  "state_of (save_ArtisanWork pf rnd w d) = d
   \<or> (\<exists>s. state_of (save_ArtisanWork pf rnd w d)
         = d\<lparr>artisan_works := upsert work_id (w\<lparr>work_slug := s\<rparr>) (artisan_works d)\<rparr>)"
proof -
  have "\<exists>s. save_ArtisanWork pf rnd w d = super_save_ArtisanWork pf (w\<lparr>work_slug := s\<rparr>) d"
  proof (cases "work_slug w = []")
    case True
    then show ?thesis unfolding save_ArtisanWork_def by auto
  next
    case False
    then have "save_ArtisanWork pf rnd w d
        = super_save_ArtisanWork pf (w\<lparr>work_slug := work_slug w\<rparr>) d"
      by (simp add: save_ArtisanWork_def)
    then show ?thesis by blast
  qed
  then obtain s where
    "save_ArtisanWork pf rnd w d = super_save_ArtisanWork pf (w\<lparr>work_slug := s\<rparr>) d" ..
  with state_of_super_save_ArtisanWork [of pf "w\<lparr>work_slug := s\<rparr>" d] show ?thesis
    by metis
qed

lemma state_of_super_save_ArtisanFeed:
  "state_of (super_save_ArtisanFeed pf f d) = d
   \<or> state_of (super_save_ArtisanFeed pf f d)
       = d\<lparr>artisan_feeds := upsert afeed_id f (artisan_feeds d)\<rparr>"
  by (simp add: super_save_ArtisanFeed_def state_of_def)

lemma state_of_save_ArtisanFeed:
  "state_of (save_ArtisanFeed pf rnd f d) = d
   \<or> (\<exists>s. state_of (save_ArtisanFeed pf rnd f d)
         = d\<lparr>artisan_feeds := upsert afeed_id (f\<lparr>afeed_slug := s\<rparr>) (artisan_feeds d)\<rparr>)"
proof -
  have "\<exists>s. save_ArtisanFeed pf rnd f d = super_save_ArtisanFeed pf (f\<lparr>afeed_slug := s\<rparr>) d"
  proof (cases "afeed_slug f = []")
    case True
    then show ?thesis unfolding save_ArtisanFeed_def by auto
  next
    case False
    then have "save_ArtisanFeed pf rnd f d
        = super_save_ArtisanFeed pf (f\<lparr>afeed_slug := afeed_slug f\<rparr>) d"
      by (simp add: save_ArtisanFeed_def)
    then show ?thesis by blast
  qed
  then obtain s where
    "save_ArtisanFeed pf rnd f d = super_save_ArtisanFeed pf (f\<lparr>afeed_slug := s\<rparr>) d" ..
  with state_of_super_save_ArtisanFeed [of pf "f\<lparr>afeed_slug := s\<rparr>" d] show ?thesis
    by metis
qed

lemma ranges_hold_save_ArtisanProfile:
  assumes "ranges_hold d" and "clean_fields_ArtisanProfile pf p = Inr ()"
  shows "ranges_hold (state_of (save_ArtisanProfile pf p d))"
proof -
  from assms(2) have "0 \<le> profile_average_rating p \<and> profile_average_rating p \<le> 500"
    using clean_fields_ArtisanProfile_accepts by blast
  then have "list_all (\<lambda>p. 0 \<le> profile_average_rating p \<and> profile_average_rating p \<le> 500)
      (upsert profile_id (p\<lparr>profile_slug := s\<rparr>) (artisan_profiles d))" for s
    using assms(1) by (intro list_all_upsert) (simp_all add: ranges_hold_def)
  with assms(1) state_of_save_ArtisanProfile [of pf p d] show ?thesis
    by (auto simp: ranges_hold_def)
qed

lemma ranges_hold_save_ArtisanWork:
  assumes "ranges_hold d" and "clean_fields_ArtisanWork pf w = Inr ()"
  shows "ranges_hold (state_of (save_ArtisanWork pf rnd w d))"
proof -
  from assms(2) have "in_range_opt 1 5 (work_client_rating w)"
    by (rule clean_fields_ArtisanWork_accepts)
  then have "list_all (\<lambda>w. in_range_opt 1 5 (work_client_rating w))
      (upsert work_id (w\<lparr>work_slug := s\<rparr>) (artisan_works d))" for s
    using assms(1) by (intro list_all_upsert) (simp_all add: ranges_hold_def)
  with assms(1) state_of_save_ArtisanWork [of pf rnd w d] show ?thesis
    by (auto simp: ranges_hold_def)
qed

lemma ranges_hold_save_ArtisanFeed:
  assumes "ranges_hold d" and "clean_fields_ArtisanFeed pf f = Inr ()"
  shows "ranges_hold (state_of (save_ArtisanFeed pf rnd f d))"
proof -
  from assms(2) have "in_range_opt 0 100 (afeed_discount_percentage f)"
    by (rule clean_fields_ArtisanFeed_accepts)
  then have "list_all (\<lambda>f. in_range_opt 0 100 (afeed_discount_percentage f))
      (upsert afeed_id (f\<lparr>afeed_slug := s\<rparr>) (artisan_feeds d))" for s
    using assms(1) by (intro list_all_upsert) (simp_all add: ranges_hold_def)
  with assms(1) state_of_save_ArtisanFeed [of pf rnd f d] show ?thesis
    by (auto simp: ranges_hold_def)
qed

text \<open>
  \<open>save\<close> looks at none of the three values: a profile that comes with a slug, is
  not refused for the value of a column and meets the \<open>UNIQUE\<close> and foreign key
  constraints is stored.
\<close>

lemma save_ArtisanProfile_given_slug_stored:
  assumes "profile_slug p \<noteq> []" and "\<not> refuses_ArtisanProfile pf p"
    and "\<not> unique_conflict profile_id profile_slug p (artisan_profiles d)"
    and "\<not> unique_conflict profile_id profile_user p (artisan_profiles d)"
    and "fk_ok user_id (profile_user p) (users d)"
  shows "save_ArtisanProfile pf p d
    = Inr (d\<lparr>artisan_profiles := upsert profile_id p (artisan_profiles d)\<rparr>)"
  using assms by (simp add: save_ArtisanProfile_def super_save_ArtisanProfile_def)

text \<open>
  Claim C8, as the source has it. The ranges are checked by model validation
  (\<open>clean_fields\<close>, run by \<open>full_clean\<close>), not by \<open>save\<close>. Validation raises
  \<open>ValidationError\<close> for an \<open>average_rating\<close> outside [0.00, 5.00], a
  \<open>client_rating\<close> that is present and outside [1, 5], and a \<open>discount_percentage\<close>
  that is present and outside [0, 100]. If the three ranges hold of every stored row,
  they still hold after the save, returned or raised, of a record that validation
  accepts. A save runs no validator: an ArtisanProfile, an ArtisanWork or an ArtisanFeed
  that comes with a slug, is not refused for the value of a column and meets the
  \<open>UNIQUE\<close> and foreign key constraints of its table is stored, whatever the three
  values are.
\<close>

theorem C8_ranges_checked_by_validation:
  "ranges_hold d \<Longrightarrow>
     (clean_fields_ArtisanProfile pf p = Inr ()
        \<longrightarrow> ranges_hold (state_of (save_ArtisanProfile pf p d)))
     \<and> (clean_fields_ArtisanWork pf w = Inr ()
        \<longrightarrow> ranges_hold (state_of (save_ArtisanWork pf rnd w d)))
     \<and> (clean_fields_ArtisanFeed pf f = Inr ()
        \<longrightarrow> ranges_hold (state_of (save_ArtisanFeed pf rnd f d)))
     \<and> (profile_average_rating p < 0 \<or> 500 < profile_average_rating p
        \<longrightarrow> clean_fields_ArtisanProfile pf p = Inl ValidationError)
     \<and> (\<not> in_range_opt 1 5 (work_client_rating w)
        \<longrightarrow> clean_fields_ArtisanWork pf w = Inl ValidationError)
     \<and> (\<not> in_range_opt 0 100 (afeed_discount_percentage f)
        \<longrightarrow> clean_fields_ArtisanFeed pf f = Inl ValidationError)
     \<and> (profile_slug p \<noteq> [] \<and> \<not> refuses_ArtisanProfile pf p
          \<and> \<not> unique_conflict profile_id profile_slug p (artisan_profiles d)
          \<and> \<not> unique_conflict profile_id profile_user p (artisan_profiles d)
          \<and> fk_ok user_id (profile_user p) (users d)
        \<longrightarrow> save_ArtisanProfile pf p d
              = Inr (d\<lparr>artisan_profiles := upsert profile_id p (artisan_profiles d)\<rparr>))
     \<and> (work_slug w \<noteq> [] \<and> \<not> refuses_ArtisanWork pf w
          \<and> fk_ok profile_id (work_artisan w) (artisan_profiles d)
        \<longrightarrow> save_ArtisanWork pf rnd w d
              = Inr (d\<lparr>artisan_works := upsert work_id w (artisan_works d)\<rparr>))
     \<and> (afeed_slug f \<noteq> [] \<and> \<not> refuses_ArtisanFeed pf f
          \<and> fk_ok profile_id (afeed_artisan f) (artisan_profiles d)
        \<longrightarrow> save_ArtisanFeed pf rnd f d
              = Inr (d\<lparr>artisan_feeds := upsert afeed_id f (artisan_feeds d)\<rparr>))"
proof -
  assume d: "ranges_hold d"
  have profile: "clean_fields_ArtisanProfile pf p = Inr ()
      \<longrightarrow> ranges_hold (state_of (save_ArtisanProfile pf p d))"
    using ranges_hold_save_ArtisanProfile [OF d] by blast
  have work: "clean_fields_ArtisanWork pf w = Inr ()
      \<longrightarrow> ranges_hold (state_of (save_ArtisanWork pf rnd w d))"
    using ranges_hold_save_ArtisanWork [OF d] by blast
  have feed: "clean_fields_ArtisanFeed pf f = Inr ()
      \<longrightarrow> ranges_hold (state_of (save_ArtisanFeed pf rnd f d))"
    using ranges_hold_save_ArtisanFeed [OF d] by blast
  have rating: "profile_average_rating p < 0 \<or> 500 < profile_average_rating p
      \<longrightarrow> clean_fields_ArtisanProfile pf p = Inl ValidationError"
    by (auto simp: clean_fields_ArtisanProfile_def run_validators_def MinValueValidator_def
        MaxValueValidator_def)
  have client: "\<not> in_range_opt 1 5 (work_client_rating w)
      \<longrightarrow> clean_fields_ArtisanWork pf w = Inl ValidationError"
    by (auto simp: clean_fields_ArtisanWork_def run_validators_blank_def run_validators_def
        MinValueValidator_def MaxValueValidator_def in_range_opt_def split: option.splits)
  have discount: "\<not> in_range_opt 0 100 (afeed_discount_percentage f)
      \<longrightarrow> clean_fields_ArtisanFeed pf f = Inl ValidationError"
    by (auto simp: clean_fields_ArtisanFeed_def run_validators_blank_def run_validators_def
        MinValueValidator_def MaxValueValidator_def in_range_opt_def split: option.splits)
  have stored_profile: "profile_slug p \<noteq> [] \<and> \<not> refuses_ArtisanProfile pf p
        \<and> \<not> unique_conflict profile_id profile_slug p (artisan_profiles d)
        \<and> \<not> unique_conflict profile_id profile_user p (artisan_profiles d)
        \<and> fk_ok user_id (profile_user p) (users d)
      \<longrightarrow> save_ArtisanProfile pf p d
            = Inr (d\<lparr>artisan_profiles := upsert profile_id p (artisan_profiles d)\<rparr>)"
    using save_ArtisanProfile_given_slug_stored by blast
  have stored_work: "work_slug w \<noteq> [] \<and> \<not> refuses_ArtisanWork pf w
        \<and> fk_ok profile_id (work_artisan w) (artisan_profiles d)
      \<longrightarrow> save_ArtisanWork pf rnd w d
            = Inr (d\<lparr>artisan_works := upsert work_id w (artisan_works d)\<rparr>)"
    using save_ArtisanWork_given_slug_stored by blast
  have stored_feed: "afeed_slug f \<noteq> [] \<and> \<not> refuses_ArtisanFeed pf f
        \<and> fk_ok profile_id (afeed_artisan f) (artisan_profiles d)
      \<longrightarrow> save_ArtisanFeed pf rnd f d
            = Inr (d\<lparr>artisan_feeds := upsert afeed_id f (artisan_feeds d)\<rparr>)"
    using save_ArtisanFeed_given_slug_stored by blast
  show ?thesis
    by (intro conjI profile work feed rating client discount
        stored_profile stored_work stored_feed)
qed

theorem C8_ranges_checked_by_validation_witness:
  "ranges_hold marketplace_db
   \<and> clean_fields_ArtisanProfile scenario_platform profile_ArtisanA = Inr ()
   \<and> ranges_hold (state_of (save_ArtisanProfile scenario_platform profile_ArtisanA marketplace_db))
   \<and> in_range_opt 1 5 (work_client_rating work_bath) = False
   \<and> clean_fields_ArtisanWork scenario_platform work_bath = Inl ValidationError
   \<and> in_range_opt 0 100 (afeed_discount_percentage afeed_promo) = False
   \<and> clean_fields_ArtisanFeed scenario_platform afeed_promo = Inl ValidationError
   \<and> afeed_slug afeed_promo \<noteq> []
   \<and> refuses_ArtisanFeed scenario_platform afeed_promo = False
   \<and> fk_ok profile_id (afeed_artisan afeed_promo) (artisan_profiles marketplace_db)
   \<and> save_ArtisanFeed scenario_platform 0 afeed_promo marketplace_db
        = Inr (marketplace_db\<lparr>artisan_feeds :=
                 upsert afeed_id afeed_promo (artisan_feeds marketplace_db)\<rparr>)"
proof -
  have h: "ranges_hold marketplace_db"
    by code_simp
  have ok: "clean_fields_ArtisanProfile scenario_platform profile_ArtisanA = Inr ()"
    by code_simp
  have w: "in_range_opt 1 5 (work_client_rating work_bath) = False"
    by code_simp
  have f: "in_range_opt 0 100 (afeed_discount_percentage afeed_promo) = False"
    by code_simp
  have s1: "afeed_slug afeed_promo \<noteq> []"
    by code_simp
  have s2: "refuses_ArtisanFeed scenario_platform afeed_promo = False"
    by code_simp
  have s3: "fk_ok profile_id (afeed_artisan afeed_promo) (artisan_profiles marketplace_db)"
    by code_simp
  note c8 = C8_ranges_checked_by_validation
    [OF h, of scenario_platform profile_ArtisanA work_bath 0 afeed_promo]
  from c8 ok have r1: "ranges_hold (state_of (save_ArtisanProfile scenario_platform
      profile_ArtisanA marketplace_db))"
    by blast
  from c8 w have r2: "clean_fields_ArtisanWork scenario_platform work_bath
      = Inl ValidationError"
    by blast
  from c8 f have r3: "clean_fields_ArtisanFeed scenario_platform afeed_promo
      = Inl ValidationError"
    by blast
  from c8 s1 s2 s3 have r4: "save_ArtisanFeed scenario_platform 0 afeed_promo marketplace_db
      = Inr (marketplace_db\<lparr>artisan_feeds :=
               upsert afeed_id afeed_promo (artisan_feeds marketplace_db)\<rparr>)"
    by blast
  show ?thesis by (intro conjI h ok r1 w r2 f r3 s1 s2 s3 r4)
qed

text \<open>
  Claim C8 as the specification states it fails: \<open>save\<close> runs no validator. An
  average rating of 7.00, a discount of 150 per cent and a client rating of 9 are each
  written by a save that returns, and are stored.
\<close>

theorem C8_out_of_range_stored:
  "save_ArtisanProfile scenario_platform (profile_ArtisanA\<lparr>profile_average_rating := 700\<rparr>)
       marketplace_db
     = Inr (marketplace_db\<lparr>artisan_profiles :=
              [profile_ArtisanA\<lparr>profile_average_rating := 700\<rparr>]\<rparr>)
   \<and> save_ArtisanFeed scenario_platform 0 afeed_promo marketplace_db
     = Inr (marketplace_db\<lparr>artisan_feeds := [afeed_promo]\<rparr>)
   \<and> afeed_discount_percentage afeed_promo = Some 150
   \<and> save_ArtisanWork scenario_platform 0 work_bath marketplace_db
     = Inr (marketplace_db\<lparr>artisan_works := [work_bath]\<rparr>)
   \<and> work_client_rating work_bath = Some 9"
proof -
  have "save_ArtisanProfile scenario_platform
        (profile_ArtisanA\<lparr>profile_average_rating := 700\<rparr>) marketplace_db
      = Inr (marketplace_db\<lparr>artisan_profiles :=
               [profile_ArtisanA\<lparr>profile_average_rating := 700\<rparr>]\<rparr>)"
    by code_simp
  moreover have "save_ArtisanFeed scenario_platform 0 afeed_promo marketplace_db
      = Inr (marketplace_db\<lparr>artisan_feeds := [afeed_promo]\<rparr>)"
    by code_simp
  moreover have "save_ArtisanWork scenario_platform 0 work_bath marketplace_db
      = Inr (marketplace_db\<lparr>artisan_works := [work_bath]\<rparr>)"
    by code_simp
  moreover have "afeed_discount_percentage afeed_promo = Some 150"
      "work_client_rating work_bath = Some 9"
    by (simp_all add: afeed_promo_def work_bath_def)
  ultimately show ?thesis by blast
qed

subsection \<open>Polymorphic targets\<close>

lemma state_of_save_Comment:
  "state_of (save_Comment c d) = d
   \<or> state_of (save_Comment c d) = d\<lparr>comments := upsert comment_id c (comments d)\<rparr>"
  by (simp add: save_Comment_def state_of_def)

lemma state_of_save_Reaction:
  "state_of (save_Reaction nh r d) = d
   \<or> state_of (save_Reaction nh r d) = d\<lparr>reactions := upsert reaction_id r (reactions d)\<rparr>"
  by (simp add: save_Reaction_def state_of_def)

lemma state_of_save_Report:
  "state_of (save_Report r d) = d
   \<or> state_of (save_Report r d) = d\<lparr>reports := upsert report_id r (reports d)\<rparr>"
  by (simp add: save_Report_def state_of_def)

lemma targets_ok_save_Comment:
  "targets_ok d \<Longrightarrow> comment_target_ok c \<Longrightarrow> targets_ok (state_of (save_Comment c d))"
  using state_of_save_Comment [of c d] list_all_upsert [of comment_target_ok "comments d" c comment_id]
  by (auto simp: targets_ok_def)

lemma targets_ok_save_Reaction:
  "targets_ok d \<Longrightarrow> reaction_target_ok r \<Longrightarrow> targets_ok (state_of (save_Reaction nh r d))"
  using state_of_save_Reaction [of nh r d]
    list_all_upsert [of reaction_target_ok "reactions d" r reaction_id]
  by (auto simp: targets_ok_def)

lemma targets_ok_save_Report:
  "targets_ok d \<Longrightarrow> report_target_ok r \<Longrightarrow> targets_ok (state_of (save_Report r d))"
  using state_of_save_Report [of r d] list_all_upsert [of report_target_ok "reports d" r report_id]
  by (auto simp: targets_ok_def)

lemma report_target_ok_set_null:
  "report_target_ok (set_null_reviewed_by u r) = report_target_ok r"
  by (simp add: set_null_reviewed_by_def report_target_ok_def split: report_content_type.splits)

lemma targets_ok_delete_User: "targets_ok d \<Longrightarrow> targets_ok (delete_User u d)"
  by (simp add: targets_ok_def delete_User_def list_all_iff report_target_ok_set_null)

text \<open>
  Claim C2, as the source has it. No write checks the target foreign keys against the
  discriminator. If every stored Comment, Reaction and Report has exactly one target
  foreign key set, the one its discriminator names, and the record written has too,
  then so has every stored record after the save, returned or raised; deleting a user
  keeps the property.
\<close>

theorem C2_targets_kept_by_well_formed_writes:
  "targets_ok d \<Longrightarrow>
     (comment_target_ok c \<longrightarrow> targets_ok (state_of (save_Comment c d)))
     \<and> (reaction_target_ok r \<longrightarrow> targets_ok (state_of (save_Reaction nh r d)))
     \<and> (report_target_ok rp \<longrightarrow> targets_ok (state_of (save_Report rp d)))
     \<and> targets_ok (delete_User u d)"
proof -
  assume d: "targets_ok d"
  have "comment_target_ok c \<longrightarrow> targets_ok (state_of (save_Comment c d))"
    using targets_ok_save_Comment [OF d] by blast
  moreover have "reaction_target_ok r \<longrightarrow> targets_ok (state_of (save_Reaction nh r d))"
    using targets_ok_save_Reaction [OF d] by blast
  moreover have "report_target_ok rp \<longrightarrow> targets_ok (state_of (save_Report rp d))"
    using targets_ok_save_Report [OF d] by blast
  moreover have "targets_ok (delete_User u d)"
    using d by (rule targets_ok_delete_User)
  ultimately show ?thesis by blast
qed

theorem C2_targets_kept_by_well_formed_writes_witness:
  "targets_ok (marketplace_db\<lparr>reactions := [reaction_like]\<rparr>)
   \<and> comment_target_ok (comment_untargeted\<lparr>comment_user_feed := Some 30\<rparr>)
   \<and> targets_ok (state_of (save_Comment (comment_untargeted\<lparr>comment_user_feed := Some 30\<rparr>)
        (marketplace_db\<lparr>reactions := [reaction_like]\<rparr>)))
   \<and> targets_ok (delete_User 2 (marketplace_db\<lparr>reactions := [reaction_like]\<rparr>))"
proof -
  have h: "targets_ok (marketplace_db\<lparr>reactions := [reaction_like]\<rparr>)"
    by code_simp
  have c: "comment_target_ok (comment_untargeted\<lparr>comment_user_feed := Some 30\<rparr>)"
    by code_simp
  from C2_targets_kept_by_well_formed_writes
    [OF h, of "comment_untargeted\<lparr>comment_user_feed := Some 30\<rparr>" _ _ _ 2] c
  have "targets_ok (state_of (save_Comment (comment_untargeted\<lparr>comment_user_feed := Some 30\<rparr>)
        (marketplace_db\<lparr>reactions := [reaction_like]\<rparr>)))
      \<and> targets_ok (delete_User 2 (marketplace_db\<lparr>reactions := [reaction_like]\<rparr>))"
    by blast
  with h c show ?thesis by blast
qed

text \<open>
  Claim C2 as the specification states it fails: a Comment of type \<open>USER_FEED\<close> with
  no target at all, and a Report of type \<open>COMMENT\<close> with a job request and a user as
  targets and no comment, are each written by a save that returns, and are stored.
\<close>

theorem C2_ill_targeted_records_stored:
  "save_Comment comment_untargeted marketplace_db
     = Inr (marketplace_db\<lparr>comments := [comment_untargeted]\<rparr>)
   \<and> comment_target_ok comment_untargeted = False
   \<and> save_Report report_two_targets marketplace_db
     = Inr (marketplace_db\<lparr>reports := [report_two_targets]\<rparr>)
   \<and> report_target_ok report_two_targets = False"
proof -
  have "save_Comment comment_untargeted marketplace_db
      = Inr (marketplace_db\<lparr>comments := [comment_untargeted]\<rparr>)"
    by code_simp
  moreover have "comment_target_ok comment_untargeted = False"
    by code_simp
  moreover have "save_Report report_two_targets marketplace_db
      = Inr (marketplace_db\<lparr>reports := [report_two_targets]\<rparr>)"
    by code_simp
  moreover have "report_target_ok report_two_targets = False"
    by code_simp
  ultimately show ?thesis by blast
qed

subsection \<open>Reactions\<close>

lemma column_equal_NullsDistinct:
  "column_equal NullsDistinct a b \<longleftrightarrow> (\<exists>x. a = Some x \<and> b = Some x)"
  by (cases a; cases b) (auto simp: column_equal_def)

lemma column_equal_NullsNotDistinct: "column_equal NullsNotDistinct a b \<longleftrightarrow> a = b"
  by (cases a; cases b) (simp_all add: column_equal_def)

text \<open>
  Under \<open>NullsDistinct\<close> the constraint never refuses a reaction that leaves a target
  column empty, as every reaction with exactly one target does.
\<close>

lemma reaction_with_null_never_conflicts:
  assumes "reaction_user_feed r = None \<or> reaction_artisan_feed r = None
      \<or> reaction_comment r = None"
  shows "\<not> reaction_unique_conflict NullsDistinct r rows"
  using assms by (auto simp: reaction_unique_conflict_def list_ex_iff column_equal_NullsDistinct)

lemma reaction_target_ok_never_conflicts:
  "reaction_target_ok r \<Longrightarrow> \<not> reaction_unique_conflict NullsDistinct r rows"
  by (rule reaction_with_null_never_conflicts)
    (auto simp: reaction_target_ok_def split: reaction_content_type.splits)

text \<open>
  Under \<open>NullsNotDistinct\<close> a second reaction with the tuple of a stored one is
  refused, whatever its \<open>reaction_type\<close>.
\<close>

lemma save_Reaction_NullsNotDistinct_duplicate:
  assumes "\<exists>q\<in>set (reactions d). reaction_id q \<noteq> reaction_id r
      \<and> reaction_user q = reaction_user r
      \<and> reaction_content_type q = reaction_content_type r
      \<and> reaction_user_feed q = reaction_user_feed r
      \<and> reaction_artisan_feed q = reaction_artisan_feed r
      \<and> reaction_comment q = reaction_comment r"
  shows "save_Reaction NullsNotDistinct r d = Inl (UniqueViolation, d)"
  using assms
  by (auto simp: save_Reaction_def reaction_unique_conflict_def list_ex_iff
      column_equal_NullsNotDistinct)

text \<open>
  Claim C3 fails on a database with the standard treatment of \<open>NULL\<close>. ArtisanA's
  user has a reaction on job request F; a second Reaction with the same user,
  content type and targets is saved, the save returns, and both are stored.
\<close>

theorem C3_second_reaction_stored:
  "save_Reaction NullsDistinct reaction_like_again
       (marketplace_db\<lparr>reactions := [reaction_like]\<rparr>)
     = Inr (marketplace_db\<lparr>reactions := [reaction_like, reaction_like_again]\<rparr>)
   \<and> reaction_like_again = reaction_like\<lparr>reaction_id := 71\<rparr>
   \<and> length (reactions_on_user_feed 2 30
        (marketplace_db\<lparr>reactions := [reaction_like, reaction_like_again]\<rparr>)) = 2"
proof -
  have "save_Reaction NullsDistinct reaction_like_again
        (marketplace_db\<lparr>reactions := [reaction_like]\<rparr>)
      = Inr (marketplace_db\<lparr>reactions := [reaction_like, reaction_like_again]\<rparr>)"
    by code_simp
  moreover have "reaction_like_again = reaction_like\<lparr>reaction_id := 71\<rparr>"
    by (simp add: reaction_like_again_def reaction_like_def)
  moreover have "length (reactions_on_user_feed 2 30
      (marketplace_db\<lparr>reactions := [reaction_like, reaction_like_again]\<rparr>)) = 2"
    by code_simp
  ultimately show ?thesis by blast
qed

text \<open>
  Claim C10 fails on a database with the standard treatment of \<open>NULL\<close>. ArtisanA's
  user has a LIKE on job request F; a DISLIKE of the same user on F is saved, the save
  returns, and the user holds both.
\<close>

theorem C10_like_and_dislike_stored:
  "save_Reaction NullsDistinct reaction_dislike
       (marketplace_db\<lparr>reactions := [reaction_like]\<rparr>)
     = Inr (marketplace_db\<lparr>reactions := [reaction_like, reaction_dislike]\<rparr>)
   \<and> reaction_dislike = reaction_like\<lparr>reaction_id := 72, reaction_reaction_type := DISLIKE\<rparr>
   \<and> map reaction_reaction_type (reactions_on_user_feed 2 30
        (marketplace_db\<lparr>reactions := [reaction_like, reaction_dislike]\<rparr>)) = [LIKE, DISLIKE]"
proof -
  have "save_Reaction NullsDistinct reaction_dislike
        (marketplace_db\<lparr>reactions := [reaction_like]\<rparr>)
      = Inr (marketplace_db\<lparr>reactions := [reaction_like, reaction_dislike]\<rparr>)"
    by code_simp
  moreover have "reaction_dislike
      = reaction_like\<lparr>reaction_id := 72, reaction_reaction_type := DISLIKE\<rparr>"
    by (simp add: reaction_dislike_def reaction_like_def)
  moreover have "map reaction_reaction_type (reactions_on_user_feed 2 30
      (marketplace_db\<lparr>reactions := [reaction_like, reaction_dislike]\<rparr>)) = [LIKE, DISLIKE]"
    by code_simp
  ultimately show ?thesis by blast
qed

subsection \<open>Deleting a user\<close>

lemma collect_replies_seen: "set seen \<subseteq> set (collect_replies cs seen)"
proof (induction cs seen rule: collect_replies.induct)
  case (1 cs seen)
  let ?new = "filter (\<lambda>c. comment_id c \<notin> set seen \<and> in_opt (comment_parent_comment c) seen) cs"
  show ?case
  proof (cases "?new = []")
    case True
    then show ?thesis by (subst collect_replies.simps) simp
  next
    case False
    with "1.IH" [OF refl False]
    have "set (seen @ map comment_id ?new) \<subseteq> set (collect_replies cs (seen @ map comment_id ?new))"
      by simp
    moreover from False have "collect_replies cs seen = collect_replies cs (seen @ map comment_id ?new)"
      by (subst collect_replies.simps) (simp add: Let_def)
    ultimately show ?thesis by auto
  qed
qed

lemma collect_replies_closed:
  "c \<in> set cs \<Longrightarrow> in_opt (comment_parent_comment c) (collect_replies cs seen)
     \<Longrightarrow> comment_id c \<in> set (collect_replies cs seen)"
proof (induction cs seen rule: collect_replies.induct)
  case (1 cs seen)
  let ?new = "filter (\<lambda>c. comment_id c \<notin> set seen \<and> in_opt (comment_parent_comment c) seen) cs"
  show ?case
  proof (cases "?new = []")
    case True
    then have eq: "collect_replies cs seen = seen"
      by (subst collect_replies.simps) simp
    from True "1.prems"(1) have "\<not> (comment_id c \<notin> set seen \<and> in_opt (comment_parent_comment c) seen)"
      by (auto simp: filter_empty_conv)
    with "1.prems"(2) show ?thesis unfolding eq by simp
  next
    case False
    then have eq: "collect_replies cs seen = collect_replies cs (seen @ map comment_id ?new)"
      by (subst collect_replies.simps) (simp add: Let_def)
    from "1.IH" [OF refl False "1.prems"(1)] "1.prems"(2) show ?thesis
      unfolding eq by simp
  qed
qed

lemma in_opt_Some: "in_opt (Some i) ids \<longleftrightarrow> i \<in> set ids"
  by (simp add: in_opt_def)

lemma user_feed_collected:
  "f \<in> set (user_feeds d) \<Longrightarrow> ufeed_user f = u \<Longrightarrow> ufeed_id f \<in> set (collected_user_feeds u d)"
  by (auto simp: collected_user_feeds_def)

lemma profile_collected:
  "p \<in> set (artisan_profiles d) \<Longrightarrow> profile_user p = u
     \<Longrightarrow> profile_id p \<in> set (collected_profiles u d)"
  by (auto simp: collected_profiles_def)

lemma comment_seed_collected:
  assumes "c \<in> set (comments d)"
    and "comment_user c = u \<or> in_opt (comment_user_feed c) (collected_user_feeds u d)
      \<or> in_opt (comment_artisan_feed c) (collected_artisan_feeds u d)"
  shows "comment_id c \<in> set (collected_comments u d)"
proof -
  from assms have "comment_id c \<in> set (map comment_id
      (filter (\<lambda>c. comment_user c = u
                 \<or> in_opt (comment_user_feed c) (collected_user_feeds u d)
                 \<or> in_opt (comment_artisan_feed c) (collected_artisan_feeds u d))
         (comments d)))"
    by auto
  then show ?thesis
    unfolding collected_comments_def using collect_replies_seen by blast
qed

lemma reply_collected:
  "c \<in> set (comments d) \<Longrightarrow> in_opt (comment_parent_comment c) (collected_comments u d)
     \<Longrightarrow> comment_id c \<in> set (collected_comments u d)"
  unfolding collected_comments_def by (rule collect_replies_closed)

lemma deleted_users: "x \<in> set (users (delete_User u d)) \<Longrightarrow> user_id x \<noteq> u"
  by (simp add: delete_User_def)

lemma deleted_roles: "x \<in> set (roles (delete_User u d)) \<Longrightarrow> role_user x \<noteq> u"
  by (simp add: delete_User_def)

lemma deleted_profiles:
  "x \<in> set (artisan_profiles (delete_User u d)) \<Longrightarrow> profile_user x \<noteq> u"
  using profile_collected [of x d u] by (auto simp: delete_User_def)

lemma deleted_works:
  assumes "p \<in> set (artisan_profiles d)" and "profile_user p = u"
    and "w \<in> set (artisan_works (delete_User u d))"
  shows "work_artisan w \<noteq> profile_id p"
proof
  assume "work_artisan w = profile_id p"
  with profile_collected [OF assms(1,2)] assms(3)
  have "work_id w \<in> set (collected_works u d)"
    by (auto simp: collected_works_def delete_User_def)
  with assms(3) show False by (simp add: delete_User_def)
qed

lemma deleted_artisan_feeds:
  assumes "p \<in> set (artisan_profiles d)" and "profile_user p = u"
    and "f \<in> set (artisan_feeds (delete_User u d))"
  shows "afeed_artisan f \<noteq> profile_id p"
proof
  assume "afeed_artisan f = profile_id p"
  with profile_collected [OF assms(1,2)] assms(3)
  have "afeed_id f \<in> set (collected_artisan_feeds u d)"
    by (auto simp: collected_artisan_feeds_def delete_User_def)
  with assms(3) show False by (simp add: delete_User_def)
qed

lemma deleted_user_feeds: "x \<in> set (user_feeds (delete_User u d)) \<Longrightarrow> ufeed_user x \<noteq> u"
  using user_feed_collected [of x d u] by (auto simp: delete_User_def)

lemma kept_comment:
  assumes "c \<in> set (comments (delete_User u d))"
  shows "comment_user c \<noteq> u
    \<and> \<not> in_opt (comment_user_feed c) (collected_user_feeds u d)
    \<and> \<not> in_opt (comment_artisan_feed c) (collected_artisan_feeds u d)
    \<and> \<not> in_opt (comment_parent_comment c) (collected_comments u d)"
proof -
  from assms have c: "c \<in> set (comments d)" and n: "comment_id c \<notin> set (collected_comments u d)"
    by (simp_all add: delete_User_def)
  from n comment_seed_collected [OF c, of u] reply_collected [OF c, of u] show ?thesis
    by blast
qed

lemma kept_reaction:
  assumes "r \<in> set (reactions (delete_User u d))"
  shows "reaction_user r \<noteq> u
    \<and> \<not> in_opt (reaction_user_feed r) (collected_user_feeds u d)
    \<and> \<not> in_opt (reaction_artisan_feed r) (collected_artisan_feeds u d)
    \<and> \<not> in_opt (reaction_comment r) (collected_comments u d)"
proof -
  from assms have r: "r \<in> set (reactions d)" and n: "reaction_id r \<notin> set (collected_reactions u d)"
    by (simp_all add: delete_User_def)
  from r n show ?thesis by (auto simp: collected_reactions_def)
qed

lemma kept_report:
  assumes "r \<in> set (reports (delete_User u d))"
  shows "report_reporter r \<noteq> u \<and> report_reported_user r \<noteq> Some u
    \<and> \<not> in_opt (report_user_feed r) (collected_user_feeds u d)
    \<and> \<not> in_opt (report_artisan_feed r) (collected_artisan_feeds u d)
    \<and> \<not> in_opt (report_comment r) (collected_comments u d)
    \<and> report_reviewed_by r \<noteq> Some u"
proof -
  from assms obtain r0 where r0: "r0 \<in> set (reports d)"
      "report_id r0 \<notin> set (collected_reports u d)" and r: "r = set_null_reviewed_by u r0"
    by (auto simp: delete_User_def)
  from r0 have "report_reporter r0 \<noteq> u \<and> report_reported_user r0 \<noteq> Some u
    \<and> \<not> in_opt (report_user_feed r0) (collected_user_feeds u d)
    \<and> \<not> in_opt (report_artisan_feed r0) (collected_artisan_feeds u d)
    \<and> \<not> in_opt (report_comment r0) (collected_comments u d)"
    by (auto simp: collected_reports_def)
  then show ?thesis unfolding r by (simp add: set_null_reviewed_by_def)
qed

lemma report_survives:
  assumes "r \<in> set (reports d)" and "report_id r \<notin> set (collected_reports u d)"
  shows "set_null_reviewed_by u r \<in> set (reports (delete_User u d))"
  using assms by (simp add: delete_User_def)

lemma report_not_collected:
  assumes "distinct (map report_id (reports d))" and "r \<in> set (reports d)"
    and "report_reporter r \<noteq> u" and "report_reported_user r \<noteq> Some u"
    and "\<not> in_opt (report_user_feed r) (collected_user_feeds u d)"
    and "\<not> in_opt (report_artisan_feed r) (collected_artisan_feeds u d)"
    and "\<not> in_opt (report_comment r) (collected_comments u d)"
  shows "report_id r \<notin> set (collected_reports u d)"
proof
  assume "report_id r \<in> set (collected_reports u d)"
  then obtain r' where r': "r' \<in> set (reports d)" "report_id r' = report_id r"
    and coll: "report_reporter r' = u \<or> report_reported_user r' = Some u
      \<or> in_opt (report_user_feed r') (collected_user_feeds u d)
      \<or> in_opt (report_artisan_feed r') (collected_artisan_feeds u d)
      \<or> in_opt (report_comment r') (collected_comments u d)"
    by (auto simp: collected_reports_def)
  from assms(1) have "inj_on report_id (set (reports d))" by (simp add: distinct_map)
  with r' assms(2) have "r' = r" by (auto dest: inj_onD)
  with coll assms(3-7) show False by blast
qed

lemma collect_replies_stored:
  "set seen \<subseteq> comment_id ` set cs \<Longrightarrow> set (collect_replies cs seen) \<subseteq> comment_id ` set cs"
proof (induction cs seen rule: collect_replies.induct)
  case (1 cs seen)
  let ?new = "filter (\<lambda>c. comment_id c \<notin> set seen \<and> in_opt (comment_parent_comment c) seen) cs"
  show ?case
  proof (cases "?new = []")
    case True
    then have "collect_replies cs seen = seen"
      by (subst collect_replies.simps) simp
    with "1.prems" show ?thesis by simp
  next
    case False
    then have eq: "collect_replies cs seen = collect_replies cs (seen @ map comment_id ?new)"
      by (subst collect_replies.simps) (simp add: Let_def)
    have "set (seen @ map comment_id ?new) \<subseteq> comment_id ` set cs"
      using "1.prems" by auto
    with "1.IH" [OF refl False] show ?thesis unfolding eq by blast
  qed
qed

lemma collected_comments_stored:
  "set (collected_comments u d) \<subseteq> comment_id ` set (comments d)"
  unfolding collected_comments_def by (rule collect_replies_stored) auto

lemma removed_user_feed:
  "f \<in> set (user_feeds d) \<Longrightarrow> f \<notin> set (user_feeds (delete_User u d))
     \<Longrightarrow> ufeed_id f \<in> set (collected_user_feeds u d)"
  by (simp add: delete_User_def)

lemma removed_artisan_feed:
  "f \<in> set (artisan_feeds d) \<Longrightarrow> f \<notin> set (artisan_feeds (delete_User u d))
     \<Longrightarrow> afeed_id f \<in> set (collected_artisan_feeds u d)"
  by (simp add: delete_User_def)

lemma removed_comment:
  "c \<in> set (comments d) \<Longrightarrow> c \<notin> set (comments (delete_User u d))
     \<Longrightarrow> comment_id c \<in> set (collected_comments u d)"
  by (simp add: delete_User_def)

lemma deleted_proposals_of_profile:
  assumes "p \<in> set (artisan_profiles d)" and "profile_user p = u"
    and "q \<in> set (artisan_proposals (delete_User u d))"
  shows "proposal_artisan q \<noteq> profile_id p"
proof
  assume "proposal_artisan q = profile_id p"
  with profile_collected [OF assms(1,2)] assms(3)
  have "proposal_id q \<in> set (collected_proposals u d)"
    by (auto simp: collected_proposals_def delete_User_def)
  with assms(3) show False by (simp add: delete_User_def)
qed

lemma deleted_proposals_on_feed:
  assumes "f \<in> set (user_feeds d)" and "ufeed_user f = u"
    and "q \<in> set (artisan_proposals (delete_User u d))"
  shows "proposal_user_feed q \<noteq> ufeed_id f"
proof
  assume "proposal_user_feed q = ufeed_id f"
  with user_feed_collected [OF assms(1,2)] assms(3)
  have "proposal_id q \<in> set (collected_proposals u d)"
    by (auto simp: collected_proposals_def delete_User_def)
  with assms(3) show False by (simp add: delete_User_def)
qed

lemma deleted_images:
  assumes "p \<in> set (artisan_profiles d)" and "profile_user p = u"
    and "w \<in> set (artisan_works d)" and "work_artisan w = profile_id p"
    and "i \<in> set (artisan_work_images (delete_User u d))"
  shows "image_work i \<noteq> work_id w"
proof
  assume a: "image_work i = work_id w"
  from profile_collected [OF assms(1,2)] assms(3,4)
  have "work_id w \<in> set (collected_works u d)"
    by (auto simp: collected_works_def)
  with a assms(5) have "image_id i \<in> set (collected_images u d)"
    by (auto simp: collected_images_def delete_User_def)
  with assms(5) show False by (simp add: delete_User_def)
qed

lemma report_from_stored:
  assumes "r' \<in> set (reports (delete_User u d))"
  shows "\<exists>r\<in>set (reports d).
    r' = (if report_reviewed_by r = Some u then r\<lparr>report_reviewed_by := None\<rparr> else r)"
  using assms by (auto simp: delete_User_def set_null_reviewed_by_def)

lemma report_kept_if_not_reached:
  assumes ids: "distinct (map report_id (reports d))"
    and r: "r \<in> set (reports d)"
    and "report_reporter r \<noteq> u" and "report_reported_user r \<noteq> Some u"
    and uf: "\<forall>f\<in>set (user_feeds d). report_user_feed r = Some (ufeed_id f)
      \<longrightarrow> f \<in> set (user_feeds (delete_User u d))"
    and af: "\<forall>f\<in>set (artisan_feeds d). report_artisan_feed r = Some (afeed_id f)
      \<longrightarrow> f \<in> set (artisan_feeds (delete_User u d))"
    and co: "\<forall>c\<in>set (comments d). report_comment r = Some (comment_id c)
      \<longrightarrow> c \<in> set (comments (delete_User u d))"
  shows "(if report_reviewed_by r = Some u then r\<lparr>report_reviewed_by := None\<rparr> else r)
    \<in> set (reports (delete_User u d))"
proof -
  have n1: "\<not> in_opt (report_user_feed r) (collected_user_feeds u d)"
  proof
    assume "in_opt (report_user_feed r) (collected_user_feeds u d)"
    then obtain f where f: "f \<in> set (user_feeds d)" "report_user_feed r = Some (ufeed_id f)"
        "ufeed_id f \<in> set (collected_user_feeds u d)"
      by (auto simp: in_opt_def collected_user_feeds_def split: option.splits)
    with uf have "f \<in> set (user_feeds (delete_User u d))" by blast
    with f(3) show False by (simp add: delete_User_def)
  qed
  have n2: "\<not> in_opt (report_artisan_feed r) (collected_artisan_feeds u d)"
  proof
    assume "in_opt (report_artisan_feed r) (collected_artisan_feeds u d)"
    then obtain f where f: "f \<in> set (artisan_feeds d)"
        "report_artisan_feed r = Some (afeed_id f)"
        "afeed_id f \<in> set (collected_artisan_feeds u d)"
      by (auto simp: in_opt_def collected_artisan_feeds_def split: option.splits)
    with af have "f \<in> set (artisan_feeds (delete_User u d))" by blast
    with f(3) show False by (simp add: delete_User_def)
  qed
  have n3: "\<not> in_opt (report_comment r) (collected_comments u d)"
  proof
    assume "in_opt (report_comment r) (collected_comments u d)"
    then obtain i where i: "report_comment r = Some i" "i \<in> set (collected_comments u d)"
      by (auto simp: in_opt_def split: option.splits)
    with collected_comments_stored [of u d] obtain c where
      c: "c \<in> set (comments d)" "comment_id c = i" by auto
    with co i(1) have "c \<in> set (comments (delete_User u d))" by blast
    with c(2) i(2) show False by (simp add: delete_User_def)
  qed
  have "report_id r \<notin> set (collected_reports u d)"
    using ids r assms(3,4) n1 n2 n3 by (rule report_not_collected)
  with r have "set_null_reviewed_by u r \<in> set (reports (delete_User u d))"
    by (rule report_survives)
  then show ?thesis by (simp add: set_null_reviewed_by_def)
qed

text \<open>
  Claim C7, as the source has it, for the deletion of user \<open>u\<close>. Gone are: the
  user's row and roles; the user's profile with its portfolio works, their images, its
  promotions and its proposals; the user's job requests with the proposals on them;
  every comment, reaction and report that the user made, every report against the user,
  and every comment, reaction and report on a job request or promotion that the
  deletion removes; every reply to, reaction on and report on a comment that the
  deletion removes. No report that is left names \<open>u\<close> as its reviewer, and every
  report that is left is a stored report, changed at most in \<open>reviewed_by\<close>. A
  report is kept, with \<open>reviewed_by\<close> emptied if it named \<open>u\<close> and every other column
  as it was, when the cascade does not reach it: its reporter and its reported user are
  other users, and its job request, promotion or comment, if it has one, is kept.
\<close>

theorem C7_delete_user_cascade:
  "distinct (map report_id (reports d)) \<Longrightarrow>
     (\<forall>x\<in>set (users (delete_User u d)). user_id x \<noteq> u)
     \<and> (\<forall>x\<in>set (roles (delete_User u d)). role_user x \<noteq> u)
     \<and> (\<forall>x\<in>set (artisan_profiles (delete_User u d)). profile_user x \<noteq> u)
     \<and> (\<forall>p\<in>set (artisan_profiles d). profile_user p = u \<longrightarrow>
          (\<forall>w\<in>set (artisan_works (delete_User u d)). work_artisan w \<noteq> profile_id p)
          \<and> (\<forall>w\<in>set (artisan_works d). work_artisan w = profile_id p \<longrightarrow>
                (\<forall>i\<in>set (artisan_work_images (delete_User u d)). image_work i \<noteq> work_id w))
          \<and> (\<forall>f\<in>set (artisan_feeds (delete_User u d)). afeed_artisan f \<noteq> profile_id p)
          \<and> (\<forall>q\<in>set (artisan_proposals (delete_User u d)). proposal_artisan q \<noteq> profile_id p))
     \<and> (\<forall>x\<in>set (user_feeds (delete_User u d)). ufeed_user x \<noteq> u)
     \<and> (\<forall>f\<in>set (user_feeds d). ufeed_user f = u \<longrightarrow>
          (\<forall>q\<in>set (artisan_proposals (delete_User u d)). proposal_user_feed q \<noteq> ufeed_id f))
     \<and> (\<forall>c\<in>set (comments (delete_User u d)). comment_user c \<noteq> u)
     \<and> (\<forall>r\<in>set (reactions (delete_User u d)). reaction_user r \<noteq> u)
     \<and> (\<forall>r\<in>set (reports (delete_User u d)).
          report_reporter r \<noteq> u \<and> report_reported_user r \<noteq> Some u
          \<and> report_reviewed_by r \<noteq> Some u)
     \<and> (\<forall>f\<in>set (user_feeds d). f \<notin> set (user_feeds (delete_User u d)) \<longrightarrow>
          (\<forall>c\<in>set (comments (delete_User u d)). comment_user_feed c \<noteq> Some (ufeed_id f))
          \<and> (\<forall>r\<in>set (reactions (delete_User u d)). reaction_user_feed r \<noteq> Some (ufeed_id f))
          \<and> (\<forall>r\<in>set (reports (delete_User u d)). report_user_feed r \<noteq> Some (ufeed_id f)))
     \<and> (\<forall>f\<in>set (artisan_feeds d). f \<notin> set (artisan_feeds (delete_User u d)) \<longrightarrow>
          (\<forall>c\<in>set (comments (delete_User u d)). comment_artisan_feed c \<noteq> Some (afeed_id f))
          \<and> (\<forall>r\<in>set (reactions (delete_User u d)).
                reaction_artisan_feed r \<noteq> Some (afeed_id f))
          \<and> (\<forall>r\<in>set (reports (delete_User u d)). report_artisan_feed r \<noteq> Some (afeed_id f)))
     \<and> (\<forall>c0\<in>set (comments d). c0 \<notin> set (comments (delete_User u d)) \<longrightarrow>
          (\<forall>c\<in>set (comments (delete_User u d)).
                comment_parent_comment c \<noteq> Some (comment_id c0))
          \<and> (\<forall>r\<in>set (reactions (delete_User u d)). reaction_comment r \<noteq> Some (comment_id c0))
          \<and> (\<forall>r\<in>set (reports (delete_User u d)). report_comment r \<noteq> Some (comment_id c0)))
     \<and> (\<forall>r'\<in>set (reports (delete_User u d)). \<exists>r\<in>set (reports d).
          r' = (if report_reviewed_by r = Some u then r\<lparr>report_reviewed_by := None\<rparr> else r))
     \<and> (\<forall>r\<in>set (reports d).
          report_reporter r \<noteq> u \<and> report_reported_user r \<noteq> Some u
          \<and> (\<forall>f\<in>set (user_feeds d). report_user_feed r = Some (ufeed_id f)
                \<longrightarrow> f \<in> set (user_feeds (delete_User u d)))
          \<and> (\<forall>f\<in>set (artisan_feeds d). report_artisan_feed r = Some (afeed_id f)
                \<longrightarrow> f \<in> set (artisan_feeds (delete_User u d)))
          \<and> (\<forall>c\<in>set (comments d). report_comment r = Some (comment_id c)
                \<longrightarrow> c \<in> set (comments (delete_User u d)))
          \<longrightarrow> (if report_reviewed_by r = Some u then r\<lparr>report_reviewed_by := None\<rparr> else r)
                \<in> set (reports (delete_User u d)))"
proof -
  assume ids: "distinct (map report_id (reports d))"
  let ?d = "delete_User u d"
  have gone_users: "\<forall>x\<in>set (users ?d). user_id x \<noteq> u"
    using deleted_users by blast
  have gone_roles: "\<forall>x\<in>set (roles ?d). role_user x \<noteq> u"
    using deleted_roles by blast
  have gone_profiles: "\<forall>x\<in>set (artisan_profiles ?d). profile_user x \<noteq> u"
    using deleted_profiles by blast
  have owned: "\<forall>p\<in>set (artisan_profiles d). profile_user p = u \<longrightarrow>
      (\<forall>w\<in>set (artisan_works ?d). work_artisan w \<noteq> profile_id p)
      \<and> (\<forall>w\<in>set (artisan_works d). work_artisan w = profile_id p \<longrightarrow>
            (\<forall>i\<in>set (artisan_work_images ?d). image_work i \<noteq> work_id w))
      \<and> (\<forall>f\<in>set (artisan_feeds ?d). afeed_artisan f \<noteq> profile_id p)
      \<and> (\<forall>q\<in>set (artisan_proposals ?d). proposal_artisan q \<noteq> profile_id p)"
  proof (intro ballI impI conjI)
    fix p w
    assume "p \<in> set (artisan_profiles d)" "profile_user p = u" "w \<in> set (artisan_works ?d)"
    then show "work_artisan w \<noteq> profile_id p" by (rule deleted_works)
  next
    fix p w i
    assume "p \<in> set (artisan_profiles d)" "profile_user p = u" "w \<in> set (artisan_works d)"
      "work_artisan w = profile_id p" "i \<in> set (artisan_work_images ?d)"
    then show "image_work i \<noteq> work_id w" by (rule deleted_images)
  next
    fix p f
    assume "p \<in> set (artisan_profiles d)" "profile_user p = u" "f \<in> set (artisan_feeds ?d)"
    then show "afeed_artisan f \<noteq> profile_id p" by (rule deleted_artisan_feeds)
  next
    fix p q
    assume "p \<in> set (artisan_profiles d)" "profile_user p = u"
      "q \<in> set (artisan_proposals ?d)"
    then show "proposal_artisan q \<noteq> profile_id p" by (rule deleted_proposals_of_profile)
  qed
  have gone_feeds: "\<forall>x\<in>set (user_feeds ?d). ufeed_user x \<noteq> u"
    using deleted_user_feeds by blast
  have on_own_feed: "\<forall>f\<in>set (user_feeds d). ufeed_user f = u \<longrightarrow>
      (\<forall>q\<in>set (artisan_proposals ?d). proposal_user_feed q \<noteq> ufeed_id f)"
    using deleted_proposals_on_feed [of _ d u] by blast
  have gone_comments: "\<forall>c\<in>set (comments ?d). comment_user c \<noteq> u"
    using kept_comment by blast
  have gone_reactions: "\<forall>r\<in>set (reactions ?d). reaction_user r \<noteq> u"
    using kept_reaction by blast
  have gone_reports: "\<forall>r\<in>set (reports ?d).
      report_reporter r \<noteq> u \<and> report_reported_user r \<noteq> Some u
      \<and> report_reviewed_by r \<noteq> Some u"
    using kept_report by blast
  have on_feed: "\<forall>f\<in>set (user_feeds d). f \<notin> set (user_feeds ?d) \<longrightarrow>
      (\<forall>c\<in>set (comments ?d). comment_user_feed c \<noteq> Some (ufeed_id f))
      \<and> (\<forall>r\<in>set (reactions ?d). reaction_user_feed r \<noteq> Some (ufeed_id f))
      \<and> (\<forall>r\<in>set (reports ?d). report_user_feed r \<noteq> Some (ufeed_id f))"
  proof (intro ballI impI conjI)
    fix f c
    assume f: "f \<in> set (user_feeds d)" "f \<notin> set (user_feeds ?d)"
      and c: "c \<in> set (comments ?d)"
    from kept_comment [OF c] removed_user_feed [OF f]
    show "comment_user_feed c \<noteq> Some (ufeed_id f)" by (auto simp: in_opt_Some)
  next
    fix f r
    assume f: "f \<in> set (user_feeds d)" "f \<notin> set (user_feeds ?d)"
      and r: "r \<in> set (reactions ?d)"
    from kept_reaction [OF r] removed_user_feed [OF f]
    show "reaction_user_feed r \<noteq> Some (ufeed_id f)" by (auto simp: in_opt_Some)
  next
    fix f r
    assume f: "f \<in> set (user_feeds d)" "f \<notin> set (user_feeds ?d)"
      and r: "r \<in> set (reports ?d)"
    from kept_report [OF r] removed_user_feed [OF f]
    show "report_user_feed r \<noteq> Some (ufeed_id f)" by (auto simp: in_opt_Some)
  qed
  have on_afeed: "\<forall>f\<in>set (artisan_feeds d). f \<notin> set (artisan_feeds ?d) \<longrightarrow>
      (\<forall>c\<in>set (comments ?d). comment_artisan_feed c \<noteq> Some (afeed_id f))
      \<and> (\<forall>r\<in>set (reactions ?d). reaction_artisan_feed r \<noteq> Some (afeed_id f))
      \<and> (\<forall>r\<in>set (reports ?d). report_artisan_feed r \<noteq> Some (afeed_id f))"
  proof (intro ballI impI conjI)
    fix f c
    assume f: "f \<in> set (artisan_feeds d)" "f \<notin> set (artisan_feeds ?d)"
      and c: "c \<in> set (comments ?d)"
    from kept_comment [OF c] removed_artisan_feed [OF f]
    show "comment_artisan_feed c \<noteq> Some (afeed_id f)" by (auto simp: in_opt_Some)
  next
    fix f r
    assume f: "f \<in> set (artisan_feeds d)" "f \<notin> set (artisan_feeds ?d)"
      and r: "r \<in> set (reactions ?d)"
    from kept_reaction [OF r] removed_artisan_feed [OF f]
    show "reaction_artisan_feed r \<noteq> Some (afeed_id f)" by (auto simp: in_opt_Some)
  next
    fix f r
    assume f: "f \<in> set (artisan_feeds d)" "f \<notin> set (artisan_feeds ?d)"
      and r: "r \<in> set (reports ?d)"
    from kept_report [OF r] removed_artisan_feed [OF f]
    show "report_artisan_feed r \<noteq> Some (afeed_id f)" by (auto simp: in_opt_Some)
  qed
  have on_comment: "\<forall>c0\<in>set (comments d). c0 \<notin> set (comments ?d) \<longrightarrow>
      (\<forall>c\<in>set (comments ?d). comment_parent_comment c \<noteq> Some (comment_id c0))
      \<and> (\<forall>r\<in>set (reactions ?d). reaction_comment r \<noteq> Some (comment_id c0))
      \<and> (\<forall>r\<in>set (reports ?d). report_comment r \<noteq> Some (comment_id c0))"
  proof (intro ballI impI conjI)
    fix c0 c
    assume c0: "c0 \<in> set (comments d)" "c0 \<notin> set (comments ?d)"
      and c: "c \<in> set (comments ?d)"
    from kept_comment [OF c] removed_comment [OF c0]
    show "comment_parent_comment c \<noteq> Some (comment_id c0)" by (auto simp: in_opt_Some)
  next
    fix c0 r
    assume c0: "c0 \<in> set (comments d)" "c0 \<notin> set (comments ?d)"
      and r: "r \<in> set (reactions ?d)"
    from kept_reaction [OF r] removed_comment [OF c0]
    show "reaction_comment r \<noteq> Some (comment_id c0)" by (auto simp: in_opt_Some)
  next
    fix c0 r
    assume c0: "c0 \<in> set (comments d)" "c0 \<notin> set (comments ?d)"
      and r: "r \<in> set (reports ?d)"
    from kept_report [OF r] removed_comment [OF c0]
    show "report_comment r \<noteq> Some (comment_id c0)" by (auto simp: in_opt_Some)
  qed
  have shape: "\<forall>r'\<in>set (reports ?d). \<exists>r\<in>set (reports d).
      r' = (if report_reviewed_by r = Some u then r\<lparr>report_reviewed_by := None\<rparr> else r)"
    using report_from_stored by blast
  have kept: "\<forall>r\<in>set (reports d).
      report_reporter r \<noteq> u \<and> report_reported_user r \<noteq> Some u
      \<and> (\<forall>f\<in>set (user_feeds d). report_user_feed r = Some (ufeed_id f)
            \<longrightarrow> f \<in> set (user_feeds ?d))
      \<and> (\<forall>f\<in>set (artisan_feeds d). report_artisan_feed r = Some (afeed_id f)
            \<longrightarrow> f \<in> set (artisan_feeds ?d))
      \<and> (\<forall>c\<in>set (comments d). report_comment r = Some (comment_id c)
            \<longrightarrow> c \<in> set (comments ?d))
      \<longrightarrow> (if report_reviewed_by r = Some u then r\<lparr>report_reviewed_by := None\<rparr> else r)
            \<in> set (reports ?d)"
  proof (intro ballI impI)
    fix r
    assume r: "r \<in> set (reports d)"
      and a: "report_reporter r \<noteq> u \<and> report_reported_user r \<noteq> Some u
        \<and> (\<forall>f\<in>set (user_feeds d). report_user_feed r = Some (ufeed_id f)
              \<longrightarrow> f \<in> set (user_feeds ?d))
        \<and> (\<forall>f\<in>set (artisan_feeds d). report_artisan_feed r = Some (afeed_id f)
              \<longrightarrow> f \<in> set (artisan_feeds ?d))
        \<and> (\<forall>c\<in>set (comments d). report_comment r = Some (comment_id c)
              \<longrightarrow> c \<in> set (comments ?d))"
    from a have a1: "report_reporter r \<noteq> u" and a2: "report_reported_user r \<noteq> Some u"
      and a3: "\<forall>f\<in>set (user_feeds d). report_user_feed r = Some (ufeed_id f)
              \<longrightarrow> f \<in> set (user_feeds ?d)"
      and a4: "\<forall>f\<in>set (artisan_feeds d). report_artisan_feed r = Some (afeed_id f)
              \<longrightarrow> f \<in> set (artisan_feeds ?d)"
      and a5: "\<forall>c\<in>set (comments d). report_comment r = Some (comment_id c)
              \<longrightarrow> c \<in> set (comments ?d)"
      by simp_all
    from ids r a1 a2 a3 a4 a5
    show "(if report_reviewed_by r = Some u then r\<lparr>report_reviewed_by := None\<rparr> else r)
        \<in> set (reports ?d)"
      by (rule report_kept_if_not_reached)
  qed
  show ?thesis
    by (intro conjI gone_users gone_roles gone_profiles owned gone_feeds on_own_feed
        gone_comments gone_reactions gone_reports on_feed on_afeed on_comment shape kept)
qed

theorem C7_delete_user_cascade_witness:
  "distinct (map report_id (reports busy_db))
   \<and> report_kept \<in> set (reports busy_db)
   \<and> report_reviewed_by report_kept = Some 2
   \<and> report_reporter report_kept = 5 \<and> report_reported_user report_kept = None
   \<and> report_user_feed report_kept = None \<and> report_artisan_feed report_kept = None
   \<and> report_comment report_kept = Some 83
   \<and> comments (delete_User 2 busy_db) = [comment_A] \<and> comment_id comment_A = 83
   \<and> report_kept\<lparr>report_reviewed_by := None\<rparr> \<in> set (reports (delete_User 2 busy_db))
   \<and> profile_ArtisanA \<in> set (artisan_profiles busy_db) \<and> profile_user profile_ArtisanA = 2
   \<and> artisan_works (delete_User 2 busy_db) = []"
proof -
  have h: "distinct (map report_id (reports busy_db))"
    by code_simp
  have r: "report_kept \<in> set (reports busy_db)"
    by (simp add: busy_db_def)
  have a1: "report_reviewed_by report_kept = Some 2"
    by (simp add: report_kept_def)
  have a2: "report_reporter report_kept = 5"
    by (simp add: report_kept_def)
  have a3: "report_reported_user report_kept = None"
    by (simp add: report_kept_def)
  have a4: "report_user_feed report_kept = None"
    by (simp add: report_kept_def)
  have a5: "report_artisan_feed report_kept = None"
    by (simp add: report_kept_def)
  have a6: "report_comment report_kept = Some 83"
    by (simp add: report_kept_def)
  have c: "comments (delete_User 2 busy_db) = [comment_A]"
    by code_simp
  have ci: "comment_id comment_A = 83"
    by (simp add: comment_A_def)
  have b3: "\<forall>c\<in>set (comments busy_db). report_comment report_kept = Some (comment_id c)
      \<longrightarrow> c \<in> set (comments (delete_User 2 busy_db))"
    unfolding c a6
    by (simp add: busy_db_def comment_B_def comment_reply_def comment_on_promo_def)
  have p1: "profile_ArtisanA \<in> set (artisan_profiles busy_db)"
    by (simp add: busy_db_def)
  have p2: "profile_user profile_ArtisanA = 2"
    by (simp add: profile_ArtisanA_def)
  have w: "artisan_works (delete_User 2 busy_db) = []"
    by code_simp
  have b1: "\<forall>f\<in>set (user_feeds busy_db). report_user_feed report_kept = Some (ufeed_id f)
      \<longrightarrow> f \<in> set (user_feeds (delete_User 2 busy_db))"
    unfolding a4 by simp
  have b2: "\<forall>f\<in>set (artisan_feeds busy_db).
      report_artisan_feed report_kept = Some (afeed_id f)
      \<longrightarrow> f \<in> set (artisan_feeds (delete_User 2 busy_db))"
    unfolding a5 by simp
  have n1: "report_reporter report_kept \<noteq> 2"
    unfolding a2 by simp
  have n2: "report_reported_user report_kept \<noteq> Some 2"
    unfolding a3 by simp
  from C7_delete_user_cascade [OF h, of 2]
  have "\<forall>r\<in>set (reports busy_db).
      report_reporter r \<noteq> 2 \<and> report_reported_user r \<noteq> Some 2
      \<and> (\<forall>f\<in>set (user_feeds busy_db). report_user_feed r = Some (ufeed_id f)
            \<longrightarrow> f \<in> set (user_feeds (delete_User 2 busy_db)))
      \<and> (\<forall>f\<in>set (artisan_feeds busy_db). report_artisan_feed r = Some (afeed_id f)
            \<longrightarrow> f \<in> set (artisan_feeds (delete_User 2 busy_db)))
      \<and> (\<forall>c\<in>set (comments busy_db). report_comment r = Some (comment_id c)
            \<longrightarrow> c \<in> set (comments (delete_User 2 busy_db)))
      \<longrightarrow> (if report_reviewed_by r = Some 2 then r\<lparr>report_reviewed_by := None\<rparr> else r)
            \<in> set (reports (delete_User 2 busy_db))"
    by (elim conjE)
  with r n1 n2 b1 b2 b3
  have "(if report_reviewed_by report_kept = Some 2
         then report_kept\<lparr>report_reviewed_by := None\<rparr> else report_kept)
      \<in> set (reports (delete_User 2 busy_db))"
    by blast
  with a1 have k: "report_kept\<lparr>report_reviewed_by := None\<rparr>
      \<in> set (reports (delete_User 2 busy_db))"
    by simp
  show ?thesis by (intro conjI h r a1 a2 a3 a4 a5 a6 c ci k p1 p2 w)
qed

text \<open>The whole of the database \<open>busy_db\<close> after the deletion of ArtisanA's user.\<close>

lemma delete_User_busy_db:
  "delete_User 2 busy_db =
     \<lparr>users = [user_A, user_M], roles = [role_plumber], artisan_profiles = [],
      artisan_works = [], artisan_work_images = [], user_feeds = [feed_F],
      artisan_feeds = [], comments = [comment_A], reactions = [reaction_M],
      reports = [report_kept\<lparr>report_reviewed_by := None\<rparr>, report_by_M],
      artisan_proposals = []\<rparr>"
  by code_simp

text \<open>
  Claim C7 as the specification states it fails. User A reported a promotion of
  ArtisanA, and ArtisanA's user reviewed the report: the report references that user
  only as \<open>reviewed_by\<close>. Deleting ArtisanA's user deletes the profile, with it the
  promotion, and with the promotion the report; of the five stored reports only two
  are left.
\<close>

theorem C7_reviewed_report_deleted:
  "report_on_promo \<in> set (reports busy_db)
   \<and> report_reviewed_by report_on_promo = Some 2
   \<and> report_reporter report_on_promo = 1
   \<and> report_reported_user report_on_promo = None
   \<and> report_user_feed report_on_promo = None
   \<and> report_comment report_on_promo = None
   \<and> report_artisan_feed report_on_promo = Some 50
   \<and> report_id report_on_promo = 91
   \<and> map report_id (reports busy_db) = [90, 91, 92, 93, 95]
   \<and> reports (delete_User 2 busy_db)
       = [report_kept\<lparr>report_reviewed_by := None\<rparr>, report_by_M]
   \<and> map report_id (reports (delete_User 2 busy_db)) = [90, 95]"
proof -
  have "report_on_promo \<in> set (reports busy_db)"
    by (simp add: busy_db_def)
  moreover have "report_reviewed_by report_on_promo = Some 2"
      "report_reporter report_on_promo = 1"
      "report_reported_user report_on_promo = None"
      "report_user_feed report_on_promo = None"
      "report_comment report_on_promo = None"
      "report_artisan_feed report_on_promo = Some 50"
      "report_id report_on_promo = 91"
    by (simp_all add: report_on_promo_def)
  moreover have "map report_id (reports busy_db) = [90, 91, 92, 93, 95]"
    by code_simp
  moreover have "reports (delete_User 2 busy_db)
      = [report_kept\<lparr>report_reviewed_by := None\<rparr>, report_by_M]"
    by code_simp
  moreover have "map report_id (reports (delete_User 2 busy_db)) = [90, 95]"
    by code_simp
  ultimately show ?thesis by blast
qed

end
